theory Spec2Isabelle
  imports Main "HOL-Library.Sublist"
begin

section \<open>The provisioning scripts of build_chromium\<close>

text \<open>
  A shallow embedding of \<^verbatim>\<open>bootstrap.py\<close> and of \<^verbatim>\<open>gn_gen\<close> from
  \<^verbatim>\<open>gn_gen.py\<close>. Python exceptions are values of \<open>py_error\<close>; a function
  that touches the process environment, the file system, standard output or a
  subprocess takes the program state and returns the outcome with the new state.
  Everything outside the repository (the platform report, the file system, the
  subprocesses, the \<^verbatim>\<open>os.path\<close> functions, the regular expression engine and
  the literal parser) is a field of the record \<open>world\<close>, whose answers may depend on
  everything the program has done so far.
\<close>

subsection \<open>Strings\<close>

text \<open>
  A Python string is modelled by its UTF-8 encoding, a \<open>string\<close> (a list of bytes).
  \<^verbatim>\<open>str.lower\<close> is modelled on the ASCII letters: other bytes are left as they are.
\<close>

definition nl :: string where
  "nl = [CHR 0x0A]"

definition ascii_upper :: string where
  "ascii_upper = ''ABCDEFGHIJKLMNOPQRSTUVWXYZ''"

definition ascii_lower :: string where
  "ascii_lower = ''abcdefghijklmnopqrstuvwxyz''"

definition lower_char :: "char \<Rightarrow> char" where
  "lower_char c = (case map_of (zip ascii_upper ascii_lower) c of Some d \<Rightarrow> d | None \<Rightarrow> c)"

definition str_lower :: "string \<Rightarrow> string" where
  "str_lower s = map lower_char s"

text \<open>\<^verbatim>\<open>sep.join(xs)\<close>.\<close>

fun str_join :: "string \<Rightarrow> string list \<Rightarrow> string" where
  "str_join sep [] = []"
| "str_join sep [x] = x"
| "str_join sep (x # y # ys) = x @ sep @ str_join sep (y # ys)"

text \<open>
  The white space that \<^verbatim>\<open>str.strip()\<close> removes at both ends: the code points
  U+0009 to U+000D, U+001C to U+0020, U+0085, U+00A0, U+1680, U+2000 to U+200A, U+2028,
  U+2029, U+202F, U+205F and U+3000, each as the bytes of its UTF-8 encoding.
\<close>

definition whitespace :: "string list" where
  "whitespace =
     [[CHR 0x09], [CHR 0x0A], [CHR 0x0B], [CHR 0x0C], [CHR 0x0D],
      [CHR 0x1C], [CHR 0x1D], [CHR 0x1E], [CHR 0x1F], [CHR 0x20],
      [CHR 0xC2, CHR 0x85], [CHR 0xC2, CHR 0xA0],
      [CHR 0xE1, CHR 0x9A, CHR 0x80],
      [CHR 0xE2, CHR 0x80, CHR 0x80], [CHR 0xE2, CHR 0x80, CHR 0x81],
      [CHR 0xE2, CHR 0x80, CHR 0x82], [CHR 0xE2, CHR 0x80, CHR 0x83],
      [CHR 0xE2, CHR 0x80, CHR 0x84], [CHR 0xE2, CHR 0x80, CHR 0x85],
      [CHR 0xE2, CHR 0x80, CHR 0x86], [CHR 0xE2, CHR 0x80, CHR 0x87],
      [CHR 0xE2, CHR 0x80, CHR 0x88], [CHR 0xE2, CHR 0x80, CHR 0x89],
      [CHR 0xE2, CHR 0x80, CHR 0x8A],
      [CHR 0xE2, CHR 0x80, CHR 0xA8], [CHR 0xE2, CHR 0x80, CHR 0xA9],
      [CHR 0xE2, CHR 0x80, CHR 0xAF],
      [CHR 0xE2, CHR 0x81, CHR 0x9F],
      [CHR 0xE3, CHR 0x80, CHR 0x80]]"

text \<open>
  \<open>strip_front seqs s\<close> removes from the front of \<open>s\<close> every byte sequence of
  \<open>seqs\<close> (each one, two or three bytes long), until none is in front.
\<close>

fun strip_front :: "string list \<Rightarrow> string \<Rightarrow> string" where
  "strip_front seqs [] = []"
| "strip_front seqs (c # cs) =
     (if [c] \<in> set seqs then strip_front seqs cs
      else if take 2 (c # cs) \<in> set seqs then strip_front seqs (drop 1 cs)
      else if take 3 (c # cs) \<in> set seqs then strip_front seqs (drop 2 cs)
      else c # cs)"

definition str_strip :: "string \<Rightarrow> string" where
  "str_strip s = rev (strip_front (map rev whitespace) (rev (strip_front whitespace s)))"

text \<open>Truth value of an optional string argument: \<^verbatim>\<open>None\<close> and \<^verbatim>\<open>''\<close> are false.\<close>

fun truthy :: "string option \<Rightarrow> bool" where
  "truthy None = False"
| "truthy (Some s) = (s \<noteq> [])"

subsection \<open>Errors, effects and the outside world\<close>

datatype py_error =
    ValueError string
  | NameError string
  | KeyError string
  | TypeError
  | IndexError
  | OSError
  | TarError
  | CalledProcessError int "string list"
  | UnicodeDecodeError

text \<open>
  What the program does to the outside: \<open>Exec args stdin cwd\<close> is a subprocess that
  was started, \<open>Print t\<close> is the text \<open>t\<close> written to standard output.
\<close>

datatype event =
    Exec "string list" "string option" "string option"
  | Print string
  | Urlopen string
  | Extracted string
  | Rename string string
  | Chdir string

record state =
  env :: "string \<rightharpoonup> string"
  trace :: "event list"

datatype proc_outcome =
    SpawnError
  | Exited int string string

text \<open>
  A child started with its standard error sent into its standard output and read as
  text. \<open>Finished rc text\<close>: the child exited with status \<open>rc\<close>, and \<open>text\<close> is all
  that it wrote to either of the two, in the order written, decoded. \<open>Undecodable ls\<close>:
  the bytes written are no text in the encoding of the locale, and \<open>ls\<close> are the lines
  that were handed out before the decoder raised. Decoded text is held as the bytes of
  its UTF-8 encoding, whatever the encoding of the locale is.
\<close>

datatype merged_outcome =
    NotStarted
  | Undecodable "string list"
  | Finished int string

datatype fetch_outcome =
    UrlError
  | Untarred nat bool

text \<open>
  The values \<^verbatim>\<open>ast.literal_eval\<close> hands back, as far as the program looks into
  them: strings, lists, dictionaries with string keys, \<^verbatim>\<open>None\<close> and integers.
\<close>

datatype pyval =
    PStr string
  | PList "pyval list"
  | PDict "(string \<times> pyval) list"
  | PNone
  | PInt int

record world =
  sys_platform :: string
  platform_machine :: string
  sys_executable :: string
  ROOT_DIR :: string
  os_pathsep :: string
  path_join :: "string \<Rightarrow> string \<Rightarrow> string"
  path_abspath :: "state \<Rightarrow> string \<Rightarrow> string"
  path_basename :: "string \<Rightarrow> string"
  path_isdir :: "state \<Rightarrow> string \<Rightarrow> bool"
  path_exists :: "state \<Rightarrow> string \<Rightarrow> bool"
  os_call_ok :: "state \<Rightarrow> event \<Rightarrow> bool"
  run_process :: "state \<Rightarrow> string list \<Rightarrow> string option \<Rightarrow> string option \<Rightarrow> proc_outcome"
  fetch_archive :: "state \<Rightarrow> string \<Rightarrow> string \<Rightarrow> fetch_outcome"
  read_file :: "state \<Rightarrow> string \<Rightarrow> string option"
  re_search :: "string \<Rightarrow> string \<Rightarrow> string option"
  literal_eval :: "string \<Rightarrow> pyval option"
  run_process_merged :: "state \<Rightarrow> string list \<Rightarrow> string option \<Rightarrow> merged_outcome"

type_synonym 'a prog = "state \<Rightarrow> (py_error + 'a) \<times> state"

definition ret :: "'a \<Rightarrow> 'a prog" where
  "ret x s = (Inr x, s)"

definition throw :: "py_error \<Rightarrow> 'a prog" where
  "throw e s = (Inl e, s)"

definition lift :: "py_error + 'a \<Rightarrow> 'a prog" where
  "lift r s = (r, s)"

definition seq :: "'a prog \<Rightarrow> ('a \<Rightarrow> 'b prog) \<Rightarrow> 'b prog" where
  "seq m f s = (case m s of (Inl e, s') \<Rightarrow> (Inl e, s') | (Inr x, s') \<Rightarrow> f x s')"

definition log :: "event \<Rightarrow> state \<Rightarrow> state" where
  "log e s = s\<lparr>trace := trace s @ [e]\<rparr>"

text \<open>\<^verbatim>\<open>print(t)\<close> writes \<open>t\<close> and a line feed; \<^verbatim>\<open>print(t, end='')\<close> writes \<open>t\<close>.\<close>

definition print :: "string \<Rightarrow> unit prog" where
  "print t s = (Inr (), log (Print (t @ nl)) s)"

definition print_no_end :: "string \<Rightarrow> unit prog" where
  "print_no_end t s = (Inr (), log (Print t) s)"

subsection \<open>Platform resolver (bootstrap.py, lines 30 to 49)\<close>

definition current_os :: "world \<Rightarrow> py_error + string" where
  "current_os w =
     (if prefix ''linux'' (sys_platform w) then Inr ''linux''
      else if prefix ''win'' (sys_platform w) then Inr ''win''
      else if sys_platform w = ''darwin'' then Inr ''mac''
      else Inl (ValueError (''Unsupported platform: '' @ sys_platform w)))"

definition current_cpu :: "world \<Rightarrow> py_error + string" where
  "current_cpu w =
     (let arch = str_lower (platform_machine w) in
      if arch = ''amd64'' \<or> arch = ''x86_64'' \<or> arch = ''x64'' then Inr ''x64''
      else if arch = ''arm64'' then Inr ''arm64''
      else if prefix ''arm'' arch then Inr ''arm''
      else Inl (ValueError (''Unrecognized CPU architecture: '' @ arch)))"

subsection \<open>Primitive effects\<close>

definition setenv :: "string \<Rightarrow> string \<Rightarrow> state \<Rightarrow> state" where
  "setenv k v s = s\<lparr>env := (env s)(k \<mapsto> v)\<rparr>"

text \<open>\<^verbatim>\<open>os.rename\<close> and \<^verbatim>\<open>os.chdir\<close>: the call happens, or raises \<^verbatim>\<open>OSError\<close>.\<close>

definition os_call :: "world \<Rightarrow> event \<Rightarrow> unit prog" where
  "os_call w e s = (if os_call_ok w s e then (Inr (), log e s) else (Inl OSError, s))"

text \<open>
  \<^verbatim>\<open>subprocess.check_call(args)\<close>: the child inherits standard output, so nothing
  of what it writes passes through the program.
\<close>

definition check_call :: "world \<Rightarrow> string list \<Rightarrow> unit prog" where
  "check_call w args s =
     (case run_process w s args None None of
        SpawnError \<Rightarrow> (Inl OSError, s)
      | Exited rc out err \<Rightarrow>
          if rc \<noteq> 0 then (Inl (CalledProcessError rc args), log (Exec args None None) s)
          else (Inr (), log (Exec args None None) s))"

subsection \<open>Environment materializer (bootstrap.py, lines 16 to 28)\<close>

definition add_depot_tools_to_path :: "world \<Rightarrow> string \<Rightarrow> unit prog" where
  "add_depot_tools_to_path w src s =
     (let s1 = setenv ''DEPOT_TOOLS_UPDATE'' ''0'' s;
          s2 = setenv ''CHROMIUM_BUILDTOOLS_PATH''
                 (path_join w (path_abspath w s1 src) ''buildtools'') s1
      in case env s2 ''PATH'' of
           None \<Rightarrow> (Inl (KeyError ''PATH''), s2)
         | Some old_path \<Rightarrow>
             let s3 = setenv ''PATH''
                        (str_join (os_pathsep w)
                           [path_join w (path_join w src ''third_party'') ''ninja'',
                            path_join w (path_join w (ROOT_DIR w) ''vendor'') ''depot_tools'',
                            old_path]) s2;
                 s4 = setenv ''DEPOT_TOOLS_WIN_TOOLCHAIN'' ''1'' s3;
                 s5 = setenv ''DEPOT_TOOLS_WIN_TOOLCHAIN_BASE_URL''
                        ''https://dev-cdn.electronjs.org/windows-toolchains/_'' s4;
                 s6 = setenv ''GYP_MSVS_HASH_27370823e7'' ''28622d16b1'' s5;
                 s7 = setenv ''GYP_MSVS_HASH_7393122652'' ''3ba76c5c20'' s6
             in (Inr (), s7))"

subsection \<open>Artifact fetchers and pin reader (bootstrap.py, lines 51 to 143)\<close>

text \<open>
  \<open>fetch_archive\<close> answers \<open>UrlError\<close> when \<^verbatim>\<open>urlopen\<close> raises, and otherwise
  \<open>Untarred n ok\<close>: the extraction asked \<open>track_progress\<close> for \<open>n\<close> members, and
  \<open>ok\<close> says whether it finished. A dot is printed at every 5000th member.
\<close>

definition download_and_extract :: "world \<Rightarrow> string \<Rightarrow> string \<Rightarrow> unit prog" where
  "download_and_extract w url extract_path s =
     (case fetch_archive w s url extract_path of
        UrlError \<Rightarrow> (Inl OSError, s)
      | Untarred n ok \<Rightarrow>
          let s1 = log (Urlopen url) s;
              s2 = s1\<lparr>trace := trace s1 @ replicate (n div 5000) (Print ''.'')\<rparr>
          in if ok then (Inr (), log (Extracted extract_path) s2) else (Inl TarError, s2))"

definition cipd_args :: "string \<Rightarrow> string \<Rightarrow> string list" where
  "cipd_args cipd_bin root = [cipd_bin, ''ensure'', ''-root'', root, ''-ensure-file'', ''-'']"

definition cipd :: "world \<Rightarrow> string \<Rightarrow> string \<Rightarrow> string \<Rightarrow> unit prog" where
  "cipd w root package version =
     seq (lift (current_os w)) (\<lambda>os s.
       let cipd_bin = (if os = ''win'' then ''cipd.bat'' else ''cipd'');
           args = cipd_args cipd_bin root;
           input = package @ '' '' @ version
       in case run_process w s args (Some input) None of
            SpawnError \<Rightarrow> (Inl OSError, s)
          | Exited rc out err \<Rightarrow>
              let s1 = log (Exec args (Some input) None) s in
              if rc \<noteq> 0 then
                seq (print out) (\<lambda>_.
                seq (print err) (\<lambda>_.
                throw (ValueError ''cipd failed.''))) s1
              else (Inr (), s1))"

definition getdep_args :: "world \<Rightarrow> string \<Rightarrow> string \<Rightarrow> string list" where
  "getdep_args w var deps_file =
     [sys_executable w, ''third_party/depot_tools/gclient.py'', ''getdep'',
      ''--deps-file'', deps_file, ''-r'', var]"

definition read_var_from_deps :: "world \<Rightarrow> string \<Rightarrow> string \<Rightarrow> string prog" where
  "read_var_from_deps w var deps_file s =
     (let args = getdep_args w var deps_file
      in case run_process w s args None None of
           SpawnError \<Rightarrow> (Inl OSError, s)
         | Exited rc out err \<Rightarrow>
             let s1 = log (Exec args None None) s in
             if rc \<noteq> 0 then
               seq (print out) (\<lambda>_.
               seq (print err) (\<lambda>_.
               throw (ValueError ''gclient getdep failed.''))) s1
             else (Inr out, s1))"

text \<open>\<open>re_search pattern content\<close> is group 1 of the first match, if there is a match.\<close>

definition search_pattern :: "world \<Rightarrow> string \<Rightarrow> string \<Rightarrow> string prog" where
  "search_pattern w filename pattern s =
     (case read_file w s filename of
        None \<Rightarrow> (Inl OSError, s)
      | Some content \<Rightarrow>
          (case re_search w pattern content of
             Some g \<Rightarrow> (Inr g, s)
           | None \<Rightarrow> (Inl (ValueError (''Failed to match pattern: '' @ pattern)), s)))"

fun opt_args :: "string list \<Rightarrow> string option \<Rightarrow> string list" where
  "opt_args flags (Some (c # cs)) = flags @ [c # cs]"
| "opt_args flags _ = []"

text \<open>
  The command line that \<^verbatim>\<open>download_from_google_storage\<close> builds: an optional
  argument is added when it is true, that is, given and not empty.
\<close>

definition download_args ::
  "world \<Rightarrow> string \<Rightarrow> string option \<Rightarrow> string option \<Rightarrow> bool \<Rightarrow> string option \<Rightarrow> string list" where
  "download_args w bucket sha_file sha1 extract output =
     [sys_executable w, ''third_party/depot_tools/download_from_google_storage.py'',
      ''--no_resume'', ''--no_auth'', ''--bucket'', bucket]
     @ opt_args [] sha1
     @ opt_args [''-s''] sha_file
     @ (if extract then [''--extract''] else [])
     @ opt_args [''-o''] output"

definition download_from_google_storage ::
  "world \<Rightarrow> string \<Rightarrow> string option \<Rightarrow> string option \<Rightarrow> bool \<Rightarrow> string option \<Rightarrow> unit prog" where
  "download_from_google_storage w bucket sha_file sha1 extract output =
     check_call w (download_args w bucket sha_file sha1 extract output)"

text \<open>\<^verbatim>\<open>objects[0]\<close> and \<^verbatim>\<open>obj['key']\<close> on a parsed literal.\<close>

fun subscript0 :: "pyval \<Rightarrow> py_error + pyval" where
  "subscript0 (PList (x # xs)) = Inr x"
| "subscript0 (PList []) = Inl IndexError"
| "subscript0 (PStr (c # cs)) = Inr (PStr [c])"
| "subscript0 (PStr []) = Inl IndexError"
| "subscript0 (PDict kvs) = Inl (KeyError ''0'')"
| "subscript0 _ = Inl TypeError"

fun subscript_key :: "pyval \<Rightarrow> string \<Rightarrow> py_error + pyval" where
  "subscript_key (PDict kvs) k = (case map_of kvs k of Some v \<Rightarrow> Inr v | None \<Rightarrow> Inl (KeyError k))"
| "subscript_key _ k = Inl TypeError"

text \<open>
  \<^verbatim>\<open>os.path.join(name, v)\<close> wants a string. As \<^verbatim>\<open>sha1\<close>, a false value is left out
  of the command line and a true value that is no string is refused when the process
  is started.
\<close>

fun as_path :: "pyval \<Rightarrow> py_error + string" where
  "as_path (PStr t) = Inr t"
| "as_path _ = Inl TypeError"

fun as_sha1 :: "pyval \<Rightarrow> py_error + string option" where
  "as_sha1 (PStr t) = Inr (Some t)"
| "as_sha1 PNone = Inr None"
| "as_sha1 (PList []) = Inr None"
| "as_sha1 (PDict []) = Inr None"
| "as_sha1 (PInt i) = (if i = 0 then Inr None else Inl TypeError)"
| "as_sha1 _ = Inl TypeError"

definition download_gcs_dep :: "world \<Rightarrow> string \<Rightarrow> string \<Rightarrow> unit prog" where
  "download_gcs_dep w name bucket =
     seq (read_var_from_deps w (''src/'' @ name) ''DEPS'') (\<lambda>txt.
     case literal_eval w txt of
       None \<Rightarrow> throw (ValueError ''malformed node or string'')
     | Some objects \<Rightarrow>
         seq (lift (subscript0 objects)) (\<lambda>first.
         seq (lift (subscript_key first ''output_file'')) (\<lambda>outv.
         seq (lift (as_path outv)) (\<lambda>outf.
         seq (lift (subscript0 objects)) (\<lambda>first'.
         seq (lift (subscript_key first' ''object_name'')) (\<lambda>objv.
         seq (lift (as_sha1 objv)) (\<lambda>obj.
         download_from_google_storage w bucket None obj True
           (Some (path_join w name outf)))))))))"

text \<open>
  In the branch for a mac host the f-string names \<^verbatim>\<open>host_cpu\<close>, which is neither a
  parameter or local of \<^verbatim>\<open>download_nodejs\<close> nor a global of the module (it is a
  local of \<^verbatim>\<open>main\<close>): evaluating the argument raises \<^verbatim>\<open>NameError\<close> before the
  call is made.
\<close>

definition node_marker :: string where
  "node_marker = ''third_party/node/linux/node-linux-x64.tar.gz.sha1''"

definition download_nodejs :: "world \<Rightarrow> string \<Rightarrow> unit prog" where
  "download_nodejs w host_os s =
     (if path_exists w s node_marker then
        seq (search_pattern w ''DEPS'' ''chromium-nodejs/([0-9.]*)'') (\<lambda>node_version.
        seq (download_from_google_storage w (''chromium-nodejs/'' @ node_version)
               (Some node_marker) None True None) (\<lambda>_.
        if host_os = ''mac'' then
          throw (NameError ''host_cpu'')
        else if host_os = ''win'' then
          download_from_google_storage w (''chromium-nodejs/'' @ node_version)
            (Some ''third_party/node/win/node.exe.sha1'') None False None
        else ret ())) s
      else
        seq (download_gcs_dep w ''third_party/node/linux'' ''chromium-nodejs'') (\<lambda>_.
        if host_os = ''mac'' then
          seq (download_gcs_dep w ''third_party/node/mac'' ''chromium-nodejs'') (\<lambda>_.
          download_gcs_dep w ''third_party/node/mac_arm64'' ''chromium-nodejs'')
        else if host_os = ''win'' then
          download_gcs_dep w ''third_party/node/win'' ''chromium-nodejs''
        else ret ()) s)"

subsection \<open>Provisioning orchestrator (bootstrap.py, lines 145 to 247)\<close>

text \<open>
  \<open>cli\<close> is the command line as given (an option that is absent is \<open>None\<close>);
  \<open>args\<close> is what \<^verbatim>\<open>parse_args\<close> returns. The defaults are computed while the
  parser is built, so \<^verbatim>\<open>current_cpu()\<close> and \<^verbatim>\<open>current_os()\<close> run, and may raise,
  whatever the command line says.
\<close>

record cli =
  cli_revision :: "string option"
  cli_tarball_url :: "string option"
  cli_src_dir :: "string option"
  cli_target_cpu :: "string option"
  cli_target_os :: "string option"

record args =
  revision :: "string option"
  tarball_url :: "string option"
  src_dir :: string
  target_cpu :: string
  target_os :: string

definition CHROMIUM_URL :: string where
  "CHROMIUM_URL = ''https://github.com/chrohime/chromium_source_tarball/releases/download''"

definition parse_args :: "world \<Rightarrow> cli \<Rightarrow> py_error + args" where
  "parse_args w c =
     (case current_cpu w of
        Inl e \<Rightarrow> Inl e
      | Inr cpu \<Rightarrow>
          (case current_os w of
             Inl e \<Rightarrow> Inl e
           | Inr os \<Rightarrow>
               Inr \<lparr> revision = cli_revision c,
                     tarball_url = cli_tarball_url c,
                     src_dir = (case cli_src_dir c of
                                  None \<Rightarrow> path_join w (ROOT_DIR w) ''src'' | Some d \<Rightarrow> d),
                     target_cpu = (case cli_target_cpu c of None \<Rightarrow> cpu | Some t \<Rightarrow> t),
                     target_os = (case cli_target_os c of None \<Rightarrow> os | Some t \<Rightarrow> t) \<rparr>))"

text \<open>Lines 161 to 164.\<close>

definition main_tarball_url :: "args \<Rightarrow> string" where
  "main_tarball_url a =
     (if truthy (revision a) then
        (case revision a of
           Some r \<Rightarrow> CHROMIUM_URL @ ''/'' @ r @ ''/chromium-'' @ r @ ''.tar.xz''
         | None \<Rightarrow> [])
      else (case tarball_url a of Some u \<Rightarrow> u | None \<Rightarrow> []))"

text \<open>
  Lines 166 to 177, the source tarball. \<^verbatim>\<open>tarball_dir\<close> is the base name of the
  URL without its last seven characters. The result \<open>Some 1\<close> is \<^verbatim>\<open>return 1\<close>;
  \<open>None\<close> lets \<^verbatim>\<open>main\<close> go on.
\<close>

definition main_tarball_dir :: "world \<Rightarrow> args \<Rightarrow> string" where
  "main_tarball_dir w a =
     (let base = path_basename w (main_tarball_url a) in take (length base - 7) base)"

definition main_download_source :: "world \<Rightarrow> args \<Rightarrow> int option prog" where
  "main_download_source w a s =
     (if \<not> path_isdir w s (src_dir a) then
        (let tarball_dir = main_tarball_dir w a
         in if path_isdir w s tarball_dir then
              seq (print (''Unable to download tarball since '' @ tarball_dir @ '' exists.''))
                (\<lambda>_. ret (Some 1)) s
            else
              seq (print_no_end (''Download and extract '' @ tarball_dir)) (\<lambda>_.
              seq (download_and_extract w (main_tarball_url a) ''.'') (\<lambda>_.
              seq (print ''Done'') (\<lambda>_.
              seq (os_call w (Rename tarball_dir (src_dir a))) (\<lambda>_.
              ret None)))) s)
      else (Inr None, s))"

text \<open>Lines 182 to 193: depot_tools, the environment, the working directory.\<close>

definition main_bootstrap_depot_tools :: "world \<Rightarrow> args \<Rightarrow> string \<Rightarrow> unit prog" where
  "main_bootstrap_depot_tools w a host_os =
     seq (if host_os = ''win'' then
            check_call w [path_join w (ROOT_DIR w) ''vendor/depot_tools/bootstrap/win_tools.bat'']
          else ret ()) (\<lambda>_.
     seq (add_depot_tools_to_path w (src_dir a)) (\<lambda>_.
     seq (os_call w (Chdir (src_dir a))) (\<lambda>_.
     if host_os = ''win'' then
       check_call w [sys_executable w, ''build/vs_toolchain.py'', ''update'', ''--force'']
     else ret ())))"

text \<open>Lines 195 to 197.\<close>

definition main_download_compilers :: "world \<Rightarrow> unit prog" where
  "main_download_compilers w =
     seq (check_call w [sys_executable w, ''tools/clang/scripts/update.py'']) (\<lambda>_.
     check_call w [sys_executable w, ''tools/rust/update_rust.py''])"

text \<open>Lines 199 to 237.\<close>

definition esbuild_dir :: string where
  "esbuild_dir = ''third_party/devtools-frontend/src/third_party/esbuild''"

definition main_download_utils :: "world \<Rightarrow> args \<Rightarrow> string \<Rightarrow> string \<Rightarrow> unit prog" where
  "main_download_utils w a host_os host_cpu =
     seq (download_nodejs w host_os) (\<lambda>_.
     seq (\<lambda>s. if path_isdir w s esbuild_dir then
                 seq (read_var_from_deps w
                        ''third_party/esbuild:infra/3pp/tools/esbuild/${platform}''
                        ''third_party/devtools-frontend/src/DEPS'') (\<lambda>v.
                 cipd w esbuild_dir ''infra/3pp/tools/esbuild/${platform}'' v) s
               else (Inr (), s)) (\<lambda>_.
     seq (read_var_from_deps w ''src/third_party/ninja:infra/3pp/tools/ninja/${platform}''
            ''DEPS'') (\<lambda>v.
     seq (cipd w ''third_party/ninja'' ''infra/3pp/tools/ninja/${platform}'' v) (\<lambda>_.
     seq (read_var_from_deps w ''src/buildtools/reclient:infra/rbe/client/${platform}''
            ''DEPS'') (\<lambda>v.
     seq (cipd w ''buildtools/reclient'' ''infra/rbe/client/${platform}'' v) (\<lambda>_.
     seq (read_var_from_deps w ''src/buildtools/mac:gn/gn/mac-${arch}'' ''DEPS'') (\<lambda>gn_version.
     if host_os = ''linux'' then
       seq (cipd w ''buildtools/linux64'' ''gn/gn/linux-${arch}'' gn_version) (\<lambda>_.
       if target_os a = ''win'' then
         download_from_google_storage w ''chromium-browser-clang/rc''
           (Some ''build/toolchain/win/rc/linux64/rc.sha1'') None False None
       else ret ())
     else if host_os = ''mac'' then
       seq (cipd w ''buildtools/mac'' ''gn/gn/mac-${arch}'' gn_version) (\<lambda>_.
       seq (download_from_google_storage w ''chromium-browser-clang''
              (Some (''tools/clang/dsymutil/bin/dsymutil.'' @ host_cpu @ ''.sha1'')) None False
              (Some ''tools/clang/dsymutil/bin/dsymutil'')) (\<lambda>_.
       if target_os a = ''win'' then
         download_from_google_storage w ''chromium-browser-clang/rc''
           (Some ''build/toolchain/win/rc/mac/rc.sha1'') None False None
       else ret ()))
     else if host_os = ''win'' then
       seq (cipd w ''buildtools/win'' ''gn/gn/windows-amd64'' gn_version) (\<lambda>_.
       download_from_google_storage w ''chromium-browser-clang/rc''
         (Some ''build/toolchain/win/rc/win/rc.exe.sha1'') None False None)
     else ret ())))))))"

text \<open>Lines 239 to 247, the sysroots.\<close>

definition install_sysroot :: "world \<Rightarrow> string \<Rightarrow> string list" where
  "install_sysroot w arch =
     [sys_executable w, ''build/linux/sysroot_scripts/install-sysroot.py'', ''--arch'', arch]"

definition main_linux_deps :: "world \<Rightarrow> args \<Rightarrow> string \<Rightarrow> string \<Rightarrow> unit prog" where
  "main_linux_deps w a host_os host_cpu =
     (if host_os = ''linux'' then
        seq (check_call w (install_sysroot w host_cpu)) (\<lambda>_.
        if host_cpu \<noteq> target_cpu a then check_call w (install_sysroot w (target_cpu a))
        else ret ())
      else ret ())"

text \<open>Lines 179 to 247: everything after the source tarball.\<close>

definition main_provision :: "world \<Rightarrow> args \<Rightarrow> int option prog" where
  "main_provision w a =
     seq (lift (current_os w)) (\<lambda>host_os.
     seq (lift (current_cpu w)) (\<lambda>host_cpu.
     seq (main_bootstrap_depot_tools w a host_os) (\<lambda>_.
     seq (main_download_compilers w) (\<lambda>_.
     seq (main_download_utils w a host_os host_cpu) (\<lambda>_.
     seq (main_linux_deps w a host_os host_cpu) (\<lambda>_.
     ret None))))))"

text \<open>\<^verbatim>\<open>main\<close> returns 1 (\<open>Some 1\<close>) or falls off its end (\<open>None\<close>).\<close>

definition main :: "world \<Rightarrow> cli \<Rightarrow> int option prog" where
  "main w c =
     seq (lift (parse_args w c)) (\<lambda>a.
     if \<not> truthy (revision a) \<and> \<not> truthy (tarball_url a) then
       seq (print ''Must specify either --revision or --tarball-url.'') (\<lambda>_. ret (Some 1))
     else
       seq (main_download_source w a) (\<lambda>r.
       case r of
         Some code \<Rightarrow> ret (Some code)
       | None \<Rightarrow> main_provision w a))"

subsection \<open>Build-graph generation (gn_gen.py, lines 10 to 19)\<close>

text \<open>
  The child is started with \<^verbatim>\<open>stderr=subprocess.STDOUT\<close> and \<^verbatim>\<open>text=True\<close>: the
  program reads one stream that holds both outputs of the child, decoded, in which a
  carriage return followed by a line feed, and a carriage return alone, have become a
  line feed. When the decoder raises, the loop ends there with
  \<^verbatim>\<open>UnicodeDecodeError\<close> and \<^verbatim>\<open>process.wait()\<close> is not reached.
\<close>

fun universal_newlines :: "string \<Rightarrow> string" where
  "universal_newlines [] = []"
| "universal_newlines [c] = [if c = CHR 0x0D then CHR 0x0A else c]"
| "universal_newlines (c # d # cs) =
     (if c = CHR 0x0D \<and> d = CHR 0x0A then CHR 0x0A # universal_newlines cs
      else if c = CHR 0x0D then CHR 0x0A # universal_newlines (d # cs)
      else c # universal_newlines (d # cs))"

text \<open>
  Iterating over the stream yields the text cut after each line feed; a last piece
  without a line feed is a line too.
\<close>

fun lines_from :: "string \<Rightarrow> string \<Rightarrow> string list" where
  "lines_from cur [] = (if cur = [] then [] else [cur])"
| "lines_from cur (c # cs) =
     (if c = CHR 0x0A then (cur @ [c]) # lines_from [] cs else lines_from (cur @ [c]) cs)"

definition iter_lines :: "string \<Rightarrow> string list" where
  "iter_lines output = lines_from [] (universal_newlines output)"

definition gn_gen :: "world \<Rightarrow> string \<Rightarrow> string \<Rightarrow> string list \<Rightarrow> unit prog" where
  "gn_gen w src out gn_args =
     seq (lift (current_os w)) (\<lambda>os s.
       let joined_args = str_join '' '' gn_args;
           gn_bin = (if os = ''win'' then ''gn.bat'' else ''gn'');
           cmd = [gn_bin, ''gen'', out, ''--args='' @ joined_args];
           print_line = (\<lambda>s' line.
                           if \<not> sublist ''.gclient_entries missing'' line
                           then log (Print (str_strip line @ nl)) s' else s');
           s1 = log (Exec cmd None (Some src)) s
       in case run_process_merged w s cmd (Some src) of
            NotStarted \<Rightarrow> (Inl OSError, s)
          | Undecodable ls \<Rightarrow> (Inl UnicodeDecodeError, foldl print_line s1 ls)
          | Finished rc output \<Rightarrow> (Inr (), foldl print_line s1 (iter_lines output)))"

subsection \<open>Vocabulary of the properties\<close>

text \<open>The events of the source tarball stage: the download, the extraction, the rename.\<close>

fun is_source_download :: "event \<Rightarrow> bool" where
  "is_source_download (Urlopen u) = True"
| "is_source_download (Extracted p) = True"
| "is_source_download (Rename a b) = True"
| "is_source_download _ = False"

text \<open>\<open>emits P m\<close>: whatever \<open>m\<close> returns, it only adds events that satisfy \<open>P\<close>.\<close>

definition emits :: "(event \<Rightarrow> bool) \<Rightarrow> 'a prog \<Rightarrow> bool" where
  "emits P m = (\<forall>s. \<exists>es. trace (snd (m s)) = trace s @ es \<and> list_all P es)"

text \<open>\<open>keeps_env m\<close>: whatever \<open>m\<close> returns, the environment variables are as before.\<close>

definition keeps_env :: "'a prog \<Rightarrow> bool" where
  "keeps_env m = (\<forall>s. env (snd (m s)) = env s)"

definition quiet_event :: "event \<Rightarrow> bool" where
  "quiet_event e = (\<not> is_source_download e)"

text \<open>A sysroot installation: the install-sysroot script run for some architecture.\<close>

definition is_install_sysroot :: "world \<Rightarrow> event \<Rightarrow> bool" where
  "is_install_sysroot w e =
     (case e of
        Exec cmd None None \<Rightarrow> length cmd = 4 \<and> take 3 cmd = take 3 (install_sysroot w [])
      | _ \<Rightarrow> False)"

text \<open>
  The steps that \<^verbatim>\<open>main\<close> and \<^verbatim>\<open>download_nodejs\<close> take only on a Windows host
  or only on a Mac host, each told by the first command it starts: the depot_tools
  bootstrap and the toolchain update of a Windows host; reading the node entries for
  win, mac and mac_arm64; the gn packages of both hosts; the node, resource compiler
  and dsymutil downloads of both hosts. A command is told by its shape: the whole
  command line, or what follows the bucket of a download.
\<close>

definition foreign_host_step :: "world \<Rightarrow> event \<Rightarrow> bool" where
  "foreign_host_step w e =
     (case e of
        Exec cmd i c \<Rightarrow>
          cmd = [path_join w (ROOT_DIR w) ''vendor/depot_tools/bootstrap/win_tools.bat''] \<or>
          cmd = [sys_executable w, ''build/vs_toolchain.py'', ''update'', ''--force''] \<or>
          cmd = getdep_args w ''src/third_party/node/win'' ''DEPS'' \<or>
          cmd = getdep_args w ''src/third_party/node/mac'' ''DEPS'' \<or>
          cmd = getdep_args w ''src/third_party/node/mac_arm64'' ''DEPS'' \<or>
          cmd = cipd_args ''cipd.bat'' ''buildtools/win'' \<or>
          cmd = cipd_args ''cipd'' ''buildtools/mac'' \<or>
          drop 6 cmd = [''-s'', ''third_party/node/win/node.exe.sha1''] \<or>
          drop 6 cmd = [''-s'', ''build/toolchain/win/rc/win/rc.exe.sha1''] \<or>
          drop 6 cmd = [''-s'', ''build/toolchain/win/rc/mac/rc.sha1''] \<or>
          (case drop 5 cmd of
             [bucket, f, sha_file, g, outp] \<Rightarrow>
               bucket = ''chromium-browser-clang'' \<and> f = ''-s'' \<and> g = ''-o'' \<and>
               outp = ''tools/clang/dsymutil/bin/dsymutil''
           | _ \<Rightarrow> False)
      | _ \<Rightarrow> False)"

definition native_event :: "world \<Rightarrow> event \<Rightarrow> bool" where
  "native_event w e = (\<not> foreign_host_step w e)"

text \<open>
  The steps a linux host runs, as lists of events. The source tarball, when it is
  fetched, with \<open>n\<close> progress dots:
\<close>

definition plan_source :: "world \<Rightarrow> args \<Rightarrow> nat \<Rightarrow> event list" where
  "plan_source w a n =
     Print (''Download and extract '' @ main_tarball_dir w a) #
     Urlopen (main_tarball_url a) #
     replicate n (Print ''.'') @
     [Extracted ''.'', Print (''Done'' @ nl), Rename (main_tarball_dir w a) (src_dir a)]"

text \<open>The working directory and the two compilers:\<close>

definition plan_compilers :: "world \<Rightarrow> args \<Rightarrow> event list" where
  "plan_compilers w a =
     [Chdir (src_dir a),
      Exec [sys_executable w, ''tools/clang/scripts/update.py''] None None,
      Exec [sys_executable w, ''tools/rust/update_rust.py''] None None]"

text \<open>Linux node, by the marker file (version \<open>v\<close>) or by the DEPS entry:\<close>

definition plan_node_marker :: "world \<Rightarrow> string \<Rightarrow> event list" where
  "plan_node_marker w v =
     [Exec (download_args w (''chromium-nodejs/'' @ v) (Some node_marker) None True None)
        None None]"

definition plan_node_deps :: "world \<Rightarrow> string option \<Rightarrow> string \<Rightarrow> event list" where
  "plan_node_deps w obj outf =
     [Exec (getdep_args w ''src/third_party/node/linux'' ''DEPS'') None None,
      Exec (download_args w ''chromium-nodejs'' None obj True
              (Some (path_join w ''third_party/node/linux'' outf))) None None]"

text \<open>esbuild at version \<open>v\<close>:\<close>

definition plan_esbuild :: "world \<Rightarrow> string \<Rightarrow> event list" where
  "plan_esbuild w v =
     [Exec (getdep_args w ''third_party/esbuild:infra/3pp/tools/esbuild/${platform}''
              ''third_party/devtools-frontend/src/DEPS'') None None,
      Exec (cipd_args ''cipd'' esbuild_dir)
        (Some (''infra/3pp/tools/esbuild/${platform}'' @ '' '' @ v)) None]"

text \<open>ninja, reclient and the linux gn, at the versions read from DEPS:\<close>

definition plan_linux_tools :: "world \<Rightarrow> string \<Rightarrow> string \<Rightarrow> string \<Rightarrow> event list" where
  "plan_linux_tools w ninja reclient gn =
     [Exec (getdep_args w ''src/third_party/ninja:infra/3pp/tools/ninja/${platform}'' ''DEPS'')
        None None,
      Exec (cipd_args ''cipd'' ''third_party/ninja'')
        (Some (''infra/3pp/tools/ninja/${platform}'' @ '' '' @ ninja)) None,
      Exec (getdep_args w ''src/buildtools/reclient:infra/rbe/client/${platform}'' ''DEPS'')
        None None,
      Exec (cipd_args ''cipd'' ''buildtools/reclient'')
        (Some (''infra/rbe/client/${platform}'' @ '' '' @ reclient)) None,
      Exec (getdep_args w ''src/buildtools/mac:gn/gn/mac-${arch}'' ''DEPS'') None None,
      Exec (cipd_args ''cipd'' ''buildtools/linux64'')
        (Some (''gn/gn/linux-${arch}'' @ '' '' @ gn)) None]"

text \<open>The resource compiler for Windows targets, in its build for a linux host:\<close>

definition plan_rc_linux64 :: "world \<Rightarrow> event" where
  "plan_rc_linux64 w =
     Exec (download_args w ''chromium-browser-clang/rc''
             (Some ''build/toolchain/win/rc/linux64/rc.sha1'') None False None) None None"

text \<open>The sysroots of a host CPU and a target CPU:\<close>

definition plan_sysroots :: "world \<Rightarrow> string \<Rightarrow> string \<Rightarrow> event list" where
  "plan_sysroots w host_cpu tcpu =
     Exec (install_sysroot w host_cpu) None None #
     (if host_cpu \<noteq> tcpu then [Exec (install_sysroot w tcpu) None None] else [])"

text \<open>A world for the closed examples: a POSIX host on which every external step succeeds.\<close>

definition posix_join :: "string \<Rightarrow> string \<Rightarrow> string" where
  "posix_join a b =
     (if prefix ''/'' b then b
      else if a = [] \<or> last a = CHR ''/'' then a @ b
      else a @ ''/'' @ b)"

definition posix_basename :: "string \<Rightarrow> string" where
  "posix_basename p = rev (takeWhile (\<lambda>c. c \<noteq> CHR ''/'') (rev p))"

definition quiet_world :: "string \<Rightarrow> string \<Rightarrow> world" where
  "quiet_world plat machine =
     \<lparr> sys_platform = plat, platform_machine = machine,
       sys_executable = ''python3'', ROOT_DIR = ''/bc'', os_pathsep = '':'',
       path_join = posix_join,
       path_abspath = (\<lambda>s p. posix_join ''/bc'' p),
       path_basename = posix_basename,
       path_isdir = (\<lambda>s p. False),
       path_exists = (\<lambda>s p. False),
       os_call_ok = (\<lambda>s e. True),
       run_process = (\<lambda>s a i c. Exited 0 ''1.2.3'' []),
       fetch_archive = (\<lambda>s u p. Untarred 0 True),
       read_file = (\<lambda>s p. Some []),
       re_search = (\<lambda>p c. Some []),
       literal_eval = (\<lambda>t. Some (PList [PDict [(''object_name'', PStr ''abc''),
                                                  (''output_file'', PStr ''x.tar.gz'')]])),
       run_process_merged = (\<lambda>s a c. Finished 0 []) \<rparr>"

definition s0 :: state where
  "s0 = \<lparr>env = Map.empty, trace = []\<rparr>"

text \<open>
  A linux host on x86_64 whose source directory is already there, a state in which
  \<^verbatim>\<open>PATH\<close> is set, and three command lines.
\<close>

definition linux_world :: world where
  "linux_world = quiet_world ''linux'' ''x86_64''\<lparr>path_isdir := \<lambda>s p. p = ''/bc/src''\<rparr>"

definition start :: state where
  "start = \<lparr>env = [''PATH'' \<mapsto> ''/usr/bin''], trace = []\<rparr>"

definition cli_none :: cli where
  "cli_none = \<lparr>cli_revision = None, cli_tarball_url = None, cli_src_dir = None,
                cli_target_cpu = None, cli_target_os = None\<rparr>"

definition cli_arm :: cli where
  "cli_arm = cli_none\<lparr>cli_revision := Some ''120.0.1'', cli_target_cpu := Some ''arm''\<rparr>"

definition cli_win :: cli where
  "cli_win = cli_none\<lparr>cli_revision := Some ''120.0.1'', cli_target_os := Some ''win''\<rparr>"

text \<open>The same machine as a Windows host and as a Mac host.\<close>

definition win_world :: world where
  "win_world = quiet_world ''win32'' ''AMD64''\<lparr>path_isdir := \<lambda>s p. p = ''/bc/src''\<rparr>"

definition mac_world :: world where
  "mac_world = quiet_world ''darwin'' ''arm64''\<lparr>path_isdir := \<lambda>s p. p = ''/bc/src''\<rparr>"

text \<open>
  A linux host on which gn fails. What it writes: an error that ends in two spaces and
  a lone carriage return, a line about \<^verbatim>\<open>.gclient_entries\<close>, and a warning between two
  no-break spaces that ends in carriage return and line feed.
\<close>

definition gn_failing_output :: string where
  "gn_failing_output =
     ''ERROR at //BUILD.gn  '' @ [CHR 0x0D] @
     ''x .gclient_entries missing y'' @ [CHR 0x0A] @
     [CHR 0xC2, CHR 0xA0] @ ''warning: stale'' @ [CHR 0xC2, CHR 0xA0, CHR 0x0D, CHR 0x0A]"

definition gn_failing_world :: world where
  "gn_failing_world =
     quiet_world ''linux'' ''x86_64''
       \<lparr>run_process_merged := \<lambda>s a c. Finished 1 gn_failing_output\<rparr>"

section \<open>Properties\<close>

subsection \<open>Helper lemmas\<close>

lemma str_lower_literals:
  "str_lower ''amd64'' = ''amd64''"
  "str_lower ''x86_64'' = ''x86_64''"
  "str_lower ''x64'' = ''x64''"
  "str_lower ''arm64'' = ''arm64''"
  "str_lower ''arm'' = ''arm''"
  "str_lower ''AMD64'' = ''amd64''"
  "str_lower ''ARM64'' = ''arm64''"
  "str_lower ''armv7l'' = ''armv7l''"
  "str_lower ''riscv64'' = ''riscv64''"
  by (simp_all add: str_lower_def lower_char_def ascii_upper_def ascii_lower_def)

lemma quiet_world_simps:
  "sys_platform (quiet_world p m) = p"
  "platform_machine (quiet_world p m) = m"
  "sys_executable (quiet_world p m) = ''python3''"
  "ROOT_DIR (quiet_world p m) = ''/bc''"
  "os_pathsep (quiet_world p m) = '':''"
  "path_join (quiet_world p m) = posix_join"
  "path_abspath (quiet_world p m) = (\<lambda>s. posix_join ''/bc'')"
  "path_basename (quiet_world p m) = posix_basename"
  "path_isdir (quiet_world p m) = (\<lambda>s q. False)"
  "path_exists (quiet_world p m) = (\<lambda>s q. False)"
  "os_call_ok (quiet_world p m) = (\<lambda>s e. True)"
  "run_process (quiet_world p m) = (\<lambda>s a i c. Exited 0 ''1.2.3'' [])"
  "fetch_archive (quiet_world p m) = (\<lambda>s u q. Untarred 0 True)"
  "read_file (quiet_world p m) = (\<lambda>s q. Some [])"
  "re_search (quiet_world p m) = (\<lambda>q c. Some [])"
  by (simp_all add: quiet_world_def)

lemma current_os_quiet:
  "current_os (quiet_world ''linux'' m) = Inr ''linux''"
  "current_os (quiet_world ''win32'' m) = Inr ''win''"
  "current_os (quiet_world ''darwin'' m) = Inr ''mac''"
  by (simp_all add: current_os_def quiet_world_simps)

subsection \<open>Platform resolver\<close>

text \<open>
  Claim C3, as amended. \<^verbatim>\<open>current_cpu\<close> decides on the lower-cased architecture
  string: it returns x64 when that is amd64, x86_64 or x64, arm64 when it is arm64,
  arm when it starts with arm and is not arm64, and raises
  \<^verbatim>\<open>ValueError('Unrecognized CPU architecture: ...')\<close> on every other string.
\<close>

theorem current_cpu_lowercased:
  "(str_lower (platform_machine w) \<in> {''amd64'', ''x86_64'', ''x64''}
      \<longrightarrow> current_cpu w = Inr ''x64'') \<and>
   (str_lower (platform_machine w) = ''arm64'' \<longrightarrow> current_cpu w = Inr ''arm64'') \<and>
   (prefix ''arm'' (str_lower (platform_machine w)) \<and> str_lower (platform_machine w) \<noteq> ''arm64''
      \<longrightarrow> current_cpu w = Inr ''arm'') \<and>
   (str_lower (platform_machine w) \<notin> {''amd64'', ''x86_64'', ''x64'', ''arm64''} \<and>
    \<not> prefix ''arm'' (str_lower (platform_machine w))
      \<longrightarrow> current_cpu w =
          Inl (ValueError (''Unrecognized CPU architecture: '' @ str_lower (platform_machine w))))"
  by (auto simp: current_cpu_def Let_def)

theorem current_cpu_lowercased_witness:
  "current_cpu (quiet_world ''win32'' ''ARM64'') = Inr ''arm64'' \<and>
   current_cpu (quiet_world ''linux'' ''armv7l'') = Inr ''arm'' \<and>
   current_cpu (quiet_world ''linux'' ''riscv64'') =
     Inl (ValueError ''Unrecognized CPU architecture: riscv64'')"
  using current_cpu_lowercased [of "quiet_world ''win32'' ''ARM64''"]
    current_cpu_lowercased [of "quiet_world ''linux'' ''armv7l''"]
    current_cpu_lowercased [of "quiet_world ''linux'' ''riscv64''"]
  by (simp add: quiet_world_simps str_lower_literals)

text \<open>
  Claim C3 as stated fails: the platform string AMD64 (what Windows reports) is none of
  amd64, x86_64, x64, arm64 and has no prefix arm, yet \<^verbatim>\<open>current_cpu\<close> returns x64
  instead of raising.
\<close>

theorem current_cpu_uppercase_counterexample:
  "''AMD64'' \<notin> {''amd64'', ''x86_64'', ''x64'', ''arm64''} \<and> \<not> prefix ''arm'' ''AMD64'' \<and>
   current_cpu (quiet_world ''win32'' ''AMD64'') = Inr ''x64''"
  by (simp add: current_cpu_def quiet_world_simps str_lower_literals)

text \<open>
  Claim C4. CPU normalization is idempotent: a token that \<^verbatim>\<open>current_cpu\<close> returns
  is returned unchanged when it is itself the platform string, in particular each of
  x64, arm64 and arm; and amd64, x86_64 and x64 all give x64.
\<close>

theorem current_cpu_idempotent:
  "(current_cpu w = Inr t \<longrightarrow> current_cpu (w\<lparr>platform_machine := t\<rparr>) = Inr t) \<and>
   current_cpu (w\<lparr>platform_machine := ''x64''\<rparr>) = Inr ''x64'' \<and>
   current_cpu (w\<lparr>platform_machine := ''arm64''\<rparr>) = Inr ''arm64'' \<and>
   current_cpu (w\<lparr>platform_machine := ''arm''\<rparr>) = Inr ''arm'' \<and>
   current_cpu (w\<lparr>platform_machine := ''amd64''\<rparr>) = Inr ''x64'' \<and>
   current_cpu (w\<lparr>platform_machine := ''x86_64''\<rparr>) = Inr ''x64''"
  by (auto simp: current_cpu_def Let_def str_lower_literals split: if_splits)

theorem current_cpu_idempotent_witness:
  "current_cpu (quiet_world ''linux'' ''armv7l'') = Inr ''arm'' \<and>
   current_cpu (quiet_world ''linux'' ''armv7l''\<lparr>platform_machine := ''arm''\<rparr>) = Inr ''arm''"
  using current_cpu_idempotent [of "quiet_world ''linux'' ''armv7l''" "''arm''"]
  by (simp add: current_cpu_def quiet_world_simps str_lower_literals)

text \<open>
  Claim C5. \<^verbatim>\<open>current_os\<close> returns one of the tokens linux, mac, win, or raises
  \<^verbatim>\<open>ValueError('Unsupported platform: ...')\<close>; it returns a token exactly when the
  platform identifier starts with linux, starts with win or is darwin, so an
  identifier it does not recognise always fails and is never given a default token.
\<close>

theorem current_os_tokens:
  "(current_os w = Inr ''linux'' \<or> current_os w = Inr ''mac'' \<or> current_os w = Inr ''win'' \<or>
    current_os w = Inl (ValueError (''Unsupported platform: '' @ sys_platform w))) \<and>
   ((\<exists>t. current_os w = Inr t) =
      (prefix ''linux'' (sys_platform w) \<or> prefix ''win'' (sys_platform w) \<or>
       sys_platform w = ''darwin'')) \<and>
   (current_os w = Inr ''linux'' \<or> current_os w = Inr ''mac'' \<or> current_os w = Inr ''win'') =
      (prefix ''linux'' (sys_platform w) \<or> prefix ''win'' (sys_platform w) \<or>
       sys_platform w = ''darwin'')"
  by (simp add: current_os_def)

subsection \<open>Package installer\<close>

text \<open>
  Claim C6. When the package-store client was started and exits with a status other
  than zero, \<^verbatim>\<open>cipd\<close> prints the captured standard output and then the captured
  standard error, each as it is, and raises \<^verbatim>\<open>ValueError('cipd failed.')\<close>; it does
  nothing else (no clean-up: the only effects are the process and the two prints, and
  the environment is untouched). When the client exits with zero, \<^verbatim>\<open>cipd\<close> returns
  and prints nothing.
\<close>

theorem cipd_outcome:
  assumes "current_os w = Inr os"
    and "run_process w s (cipd_args (if os = ''win'' then ''cipd.bat'' else ''cipd'') root)
           (Some (package @ '' '' @ version)) None = Exited rc out err"
  shows "cipd w root package version s =
           (if rc \<noteq> 0 then
              (Inl (ValueError ''cipd failed.''),
               s\<lparr>trace := trace s @
                    [Exec (cipd_args (if os = ''win'' then ''cipd.bat'' else ''cipd'') root)
                       (Some (package @ '' '' @ version)) None,
                     Print (out @ nl), Print (err @ nl)]\<rparr>)
            else
              (Inr (),
               s\<lparr>trace := trace s @
                    [Exec (cipd_args (if os = ''win'' then ''cipd.bat'' else ''cipd'') root)
                       (Some (package @ '' '' @ version)) None]\<rparr>))"
  using assms
  by (simp add: cipd_def seq_def lift_def Let_def print_def throw_def log_def)

theorem cipd_outcome_witness:
  "current_os (quiet_world ''linux'' ''x86_64''\<lparr>run_process := \<lambda>s a i c. Exited 1 ''out'' ''err''\<rparr>)
     = Inr ''linux'' \<and>
   cipd (quiet_world ''linux'' ''x86_64''\<lparr>run_process := \<lambda>s a i c. Exited 1 ''out'' ''err''\<rparr>)
      ''third_party/ninja'' ''infra/3pp/tools/ninja/${platform}'' ''v1'' s0 =
     (Inl (ValueError ''cipd failed.''),
      \<lparr>env = Map.empty,
       trace = [Exec [''cipd'', ''ensure'', ''-root'', ''third_party/ninja'', ''-ensure-file'', ''-'']
                  (Some ''infra/3pp/tools/ninja/${platform} v1'') None,
                Print (''out'' @ nl), Print (''err'' @ nl)]\<rparr>)"
  using cipd_outcome
    [of "quiet_world ''linux'' ''x86_64''\<lparr>run_process := \<lambda>s a i c. Exited 1 ''out'' ''err''\<rparr>"
      "''linux''" s0 "''third_party/ninja''" "''infra/3pp/tools/ninja/${platform}''" "''v1''"
      1 "''out''" "''err''"]
  by (simp add: current_os_def quiet_world_simps s0_def cipd_args_def)

subsection \<open>Blob fetcher\<close>

text \<open>
  Claim C1, as amended. \<^verbatim>\<open>download_from_google_storage\<close> makes no check on
  \<^verbatim>\<open>sha1\<close> and \<^verbatim>\<open>sha_file\<close>: whatever is supplied, it starts the retrieval client
  with the command line it has built, and it fails only when the client cannot be
  started (\<^verbatim>\<open>OSError\<close>) or exits with a status other than zero
  (\<^verbatim>\<open>CalledProcessError\<close>). With both supplied (and not empty) the command line
  carries the sha1 and then \<^verbatim>\<open>-s sha_file\<close>; with neither it carries no object
  identity at all.
\<close>

theorem download_from_google_storage_unchecked:
  "(case run_process w s (download_args w bucket sha_file sha1 extract output) None None of
      SpawnError \<Rightarrow>
        download_from_google_storage w bucket sha_file sha1 extract output s = (Inl OSError, s)
    | Exited rc out err \<Rightarrow>
        download_from_google_storage w bucket sha_file sha1 extract output s =
          (if rc = 0 then Inr ()
           else Inl (CalledProcessError rc (download_args w bucket sha_file sha1 extract output)),
           log (Exec (download_args w bucket sha_file sha1 extract output) None None) s)) \<and>
   download_args w bucket (Some (f # fs)) (Some (h # hs)) extract output =
     [sys_executable w, ''third_party/depot_tools/download_from_google_storage.py'',
      ''--no_resume'', ''--no_auth'', ''--bucket'', bucket, h # hs, ''-s'', f # fs]
     @ (if extract then [''--extract''] else []) @ opt_args [''-o''] output \<and>
   download_args w bucket None None extract output =
     [sys_executable w, ''third_party/depot_tools/download_from_google_storage.py'',
      ''--no_resume'', ''--no_auth'', ''--bucket'', bucket]
     @ (if extract then [''--extract''] else []) @ opt_args [''-o''] output"
  by (simp add: download_from_google_storage_def check_call_def download_args_def
      split: proc_outcome.split)

theorem download_from_google_storage_unchecked_witness:
  "download_from_google_storage
     (quiet_world ''linux'' ''x86_64''\<lparr>run_process := \<lambda>s a i c. Exited 3 [] []\<rparr>)
     ''chromium-nodejs'' (Some ''node.sha1'') (Some ''0123abcd'') False None s0 =
   (Inl (CalledProcessError 3
           [''python3'', ''third_party/depot_tools/download_from_google_storage.py'',
            ''--no_resume'', ''--no_auth'', ''--bucket'', ''chromium-nodejs'',
            ''0123abcd'', ''-s'', ''node.sha1'']),
    \<lparr>env = Map.empty,
     trace = [Exec [''python3'', ''third_party/depot_tools/download_from_google_storage.py'',
                    ''--no_resume'', ''--no_auth'', ''--bucket'', ''chromium-nodejs'',
                    ''0123abcd'', ''-s'', ''node.sha1''] None None]\<rparr>)"
  using download_from_google_storage_unchecked
    [of "quiet_world ''linux'' ''x86_64''\<lparr>run_process := \<lambda>s a i c. Exited 3 [] []\<rparr>"
      "''chromium-nodejs''" "Some ''node.sha1''" "Some ''0123abcd''" False None s0]
  by (simp add: download_args_def quiet_world_simps s0_def log_def)

text \<open>
  Claim C1 as stated fails: called with both \<^verbatim>\<open>sha1\<close> and \<^verbatim>\<open>sha_file\<close>, and
  called with neither, the function starts the retrieval client and, when the client
  exits with zero, returns without any error.
\<close>

theorem download_from_google_storage_both_counterexample:
  "download_from_google_storage (quiet_world ''linux'' ''x86_64'') ''chromium-nodejs''
     (Some ''node.sha1'') (Some ''0123abcd'') True None s0 =
   (Inr (),
    \<lparr>env = Map.empty,
     trace = [Exec [''python3'', ''third_party/depot_tools/download_from_google_storage.py'',
                    ''--no_resume'', ''--no_auth'', ''--bucket'', ''chromium-nodejs'',
                    ''0123abcd'', ''-s'', ''node.sha1'', ''--extract''] None None]\<rparr>) \<and>
   download_from_google_storage (quiet_world ''linux'' ''x86_64'') ''chromium-nodejs''
     None None True None s0 =
   (Inr (),
    \<lparr>env = Map.empty,
     trace = [Exec [''python3'', ''third_party/depot_tools/download_from_google_storage.py'',
                    ''--no_resume'', ''--no_auth'', ''--bucket'', ''chromium-nodejs'',
                    ''--extract''] None None]\<rparr>)"
  by (simp add: download_from_google_storage_def check_call_def download_args_def
      quiet_world_simps s0_def log_def)

subsection \<open>Environment materializer\<close>

text \<open>
  Claim C7, as amended. When \<^verbatim>\<open>PATH\<close> is set, \<^verbatim>\<open>add_depot_tools_to_path\<close> sets the
  auto-update-disabled flag, the build-tooling path, puts the two vendored tool
  directories in front of the search path, and sets the Windows toolchain switch, the
  toolchain base URL and the two toolchain hash constants; it does all of this on
  every platform, the platform identifier playing no part.
\<close>

theorem add_depot_tools_to_path_env:
  assumes "env s ''PATH'' = Some old_path"
  shows "add_depot_tools_to_path w src s =
           (Inr (),
            s\<lparr>env := (env s)
               (''DEPOT_TOOLS_UPDATE'' \<mapsto> ''0'',
                ''CHROMIUM_BUILDTOOLS_PATH'' \<mapsto>
                   path_join w (path_abspath w (setenv ''DEPOT_TOOLS_UPDATE'' ''0'' s) src)
                     ''buildtools'',
                ''PATH'' \<mapsto>
                   path_join w (path_join w src ''third_party'') ''ninja'' @ os_pathsep w @
                   path_join w (path_join w (ROOT_DIR w) ''vendor'') ''depot_tools'' @
                   os_pathsep w @ old_path,
                ''DEPOT_TOOLS_WIN_TOOLCHAIN'' \<mapsto> ''1'',
                ''DEPOT_TOOLS_WIN_TOOLCHAIN_BASE_URL'' \<mapsto>
                   ''https://dev-cdn.electronjs.org/windows-toolchains/_'',
                ''GYP_MSVS_HASH_27370823e7'' \<mapsto> ''28622d16b1'',
                ''GYP_MSVS_HASH_7393122652'' \<mapsto> ''3ba76c5c20'')\<rparr>) \<and>
         add_depot_tools_to_path (w\<lparr>sys_platform := plat\<rparr>) src s =
           add_depot_tools_to_path w src s"
  using assms
  by (simp add: add_depot_tools_to_path_def setenv_def Let_def)

theorem add_depot_tools_to_path_env_witness:
  "env (s0\<lparr>env := [''PATH'' \<mapsto> ''/usr/bin'']\<rparr>) ''PATH'' = Some ''/usr/bin'' \<and>
   env (snd (add_depot_tools_to_path (quiet_world ''darwin'' ''arm64'') ''/bc/src''
          (s0\<lparr>env := [''PATH'' \<mapsto> ''/usr/bin'']\<rparr>))) ''PATH'' =
     Some ''/bc/src/third_party/ninja:/bc/vendor/depot_tools:/usr/bin''"
  using add_depot_tools_to_path_env [of "s0\<lparr>env := [''PATH'' \<mapsto> ''/usr/bin'']\<rparr>" "''/usr/bin''"
      "quiet_world ''darwin'' ''arm64''" "''/bc/src''" "''darwin''"]
  by (simp add: s0_def quiet_world_simps posix_join_def)

text \<open>
  Claim C7 as stated fails: on a linux host the toolchain base URL and the two hash
  constants are set all the same.
\<close>

theorem add_depot_tools_to_path_linux_counterexample:
  "current_os (quiet_world ''linux'' ''x86_64'') = Inr ''linux'' \<and>
   fst (add_depot_tools_to_path (quiet_world ''linux'' ''x86_64'') ''/bc/src''
          (s0\<lparr>env := [''PATH'' \<mapsto> ''/usr/bin'']\<rparr>)) = Inr () \<and>
   env (snd (add_depot_tools_to_path (quiet_world ''linux'' ''x86_64'') ''/bc/src''
          (s0\<lparr>env := [''PATH'' \<mapsto> ''/usr/bin'']\<rparr>))) ''DEPOT_TOOLS_WIN_TOOLCHAIN_BASE_URL'' =
     Some ''https://dev-cdn.electronjs.org/windows-toolchains/_'' \<and>
   env (snd (add_depot_tools_to_path (quiet_world ''linux'' ''x86_64'') ''/bc/src''
          (s0\<lparr>env := [''PATH'' \<mapsto> ''/usr/bin'']\<rparr>))) ''GYP_MSVS_HASH_27370823e7'' =
     Some ''28622d16b1'' \<and>
   env (snd (add_depot_tools_to_path (quiet_world ''linux'' ''x86_64'') ''/bc/src''
          (s0\<lparr>env := [''PATH'' \<mapsto> ''/usr/bin'']\<rparr>))) ''GYP_MSVS_HASH_7393122652'' =
     Some ''3ba76c5c20''"
  by (simp add: add_depot_tools_to_path_def setenv_def Let_def s0_def current_os_quiet)

subsection \<open>Node download\<close>

text \<open>
  Claim C9. When the linux node marker file exists and \<^verbatim>\<open>host_os\<close> is mac,
  \<^verbatim>\<open>download_nodejs\<close> never returns normally and never starts the mac node download:
  the only process it starts is the linux node download. Once the node version was
  found in DEPS and the linux download has exited with zero, the error raised is
  \<^verbatim>\<open>NameError\<close> for the name \<^verbatim>\<open>host_cpu\<close>.
\<close>

theorem download_nodejs_mac_marker:
  assumes "path_exists w s node_marker"
  shows "(\<exists>e. fst (download_nodejs w ''mac'' s) = Inl e) \<and>
         (\<forall>content v out err.
            read_file w s ''DEPS'' = Some content \<and>
            re_search w ''chromium-nodejs/([0-9.]*)'' content = Some v \<and>
            run_process w s
              (download_args w (''chromium-nodejs/'' @ v) (Some node_marker) None True None)
              None None = Exited 0 out err
            \<longrightarrow> download_nodejs w ''mac'' s =
                  (Inl (NameError ''host_cpu''),
                   log (Exec (download_args w (''chromium-nodejs/'' @ v) (Some node_marker)
                                None True None) None None) s)) \<and>
         (\<forall>args i c. Exec args i c \<in> set (trace (snd (download_nodejs w ''mac'' s)))
            \<longrightarrow> Exec args i c \<in> set (trace s) \<or>
                (\<exists>v. i = None \<and> c = None \<and>
                     args = download_args w (''chromium-nodejs/'' @ v) (Some node_marker)
                              None True None))"
  using assms
  by (auto simp: download_nodejs_def seq_def search_pattern_def download_from_google_storage_def
      check_call_def throw_def log_def
      split: option.splits proc_outcome.splits sum.splits prod.splits if_splits)

theorem download_nodejs_mac_marker_witness:
  "path_exists (quiet_world ''darwin'' ''arm64''
                  \<lparr>path_exists := \<lambda>s p. p = node_marker, re_search := \<lambda>p c. Some ''20.11.0''\<rparr>)
     s0 node_marker \<and>
   download_nodejs (quiet_world ''darwin'' ''arm64''
                  \<lparr>path_exists := \<lambda>s p. p = node_marker, re_search := \<lambda>p c. Some ''20.11.0''\<rparr>)
     ''mac'' s0 =
     (Inl (NameError ''host_cpu''),
      \<lparr>env = Map.empty,
       trace = [Exec [''python3'', ''third_party/depot_tools/download_from_google_storage.py'',
                      ''--no_resume'', ''--no_auth'', ''--bucket'', ''chromium-nodejs/20.11.0'',
                      ''-s'', ''third_party/node/linux/node-linux-x64.tar.gz.sha1'',
                      ''--extract''] None None]\<rparr>)"
  using download_nodejs_mac_marker
    [of "quiet_world ''darwin'' ''arm64''
           \<lparr>path_exists := \<lambda>s p. p = node_marker, re_search := \<lambda>p c. Some ''20.11.0''\<rparr>" s0]
  by (simp add: quiet_world_simps download_args_def node_marker_def s0_def log_def)

subsection \<open>Build-graph generation\<close>

lemma trace_print_loop:
  "trace (foldl (\<lambda>s' line. if P line then log (Print (g line)) s' else s') s ls) =
     trace s @ map (\<lambda>l. Print (g l)) (filter P ls)"
  by (induction ls arbitrary: s) (simp_all add: log_def)

lemma env_print_loop:
  "env (foldl (\<lambda>s' line. if P line then log (Print (g line)) s' else s') s ls) = env s"
  by (induction ls arbitrary: s) (simp_all add: log_def)

text \<open>
  Claim C10. Once the gn process was started and has exited, its output read as
  text, \<^verbatim>\<open>gn_gen\<close> returns normally whatever the exit status is: a failing
  \<^verbatim>\<open>gn gen\<close> raises nothing and the status is dropped. Of the lines of the child's
  output (standard output and standard error in one stream, a line ending at a line
  feed, at a carriage return, or at the two in a row), those containing
  \<^verbatim>\<open>.gclient_entries missing\<close> are not printed, and every other line is printed with
  the white space of both its ends removed, in order. The environment is untouched.
\<close>

theorem gn_gen_returns:
  assumes "current_os w = Inr os"
    and "run_process_merged w s [if os = ''win'' then ''gn.bat'' else ''gn'', ''gen'', out,
                                 ''--args='' @ str_join '' '' gn_args] (Some src)
           = Finished rc output"
  shows "fst (gn_gen w src out gn_args s) = Inr () \<and>
         env (snd (gn_gen w src out gn_args s)) = env s \<and>
         trace (snd (gn_gen w src out gn_args s)) =
           trace s @
           Exec [if os = ''win'' then ''gn.bat'' else ''gn'', ''gen'', out,
                 ''--args='' @ str_join '' '' gn_args] None (Some src) #
           map (\<lambda>line. Print (str_strip line @ nl))
             (filter (\<lambda>line. \<not> sublist ''.gclient_entries missing'' line) (iter_lines output))"
  using assms
  by (simp add: gn_gen_def seq_def lift_def Let_def trace_print_loop env_print_loop log_def)

lemma gn_failing_lines:
  "map (\<lambda>line. Print (str_strip line @ nl))
     (filter (\<lambda>line. \<not> sublist ''.gclient_entries missing'' line)
        (iter_lines gn_failing_output)) =
   [Print (''ERROR at //BUILD.gn'' @ nl), Print (''warning: stale'' @ nl)]"
  by code_simp

theorem gn_gen_returns_witness:
  "current_os gn_failing_world = Inr ''linux'' \<and>
   fst (gn_gen gn_failing_world ''/bc/src'' ''out/Debug'' [''is_debug=true'', ''enable_nacl=false''] s0)
     = Inr () \<and>
   trace (snd (gn_gen gn_failing_world ''/bc/src'' ''out/Debug''
                 [''is_debug=true'', ''enable_nacl=false''] s0)) =
     [Exec [''gn'', ''gen'', ''out/Debug'', ''--args=is_debug=true enable_nacl=false'']
        None (Some ''/bc/src''),
      Print (''ERROR at //BUILD.gn'' @ nl), Print (''warning: stale'' @ nl)]"
proof -
  have os: "current_os gn_failing_world = Inr ''linux''"
    by (simp add: gn_failing_world_def current_os_def quiet_world_simps)
  have run: "run_process_merged gn_failing_world s0
               [if ''linux'' = ''win'' then ''gn.bat'' else ''gn'', ''gen'', ''out/Debug'',
                ''--args='' @ str_join '' '' [''is_debug=true'', ''enable_nacl=false'']]
               (Some ''/bc/src'') = Finished 1 gn_failing_output"
    by (simp add: gn_failing_world_def)
  have "trace s0 = []"
    by (simp add: s0_def)
  with gn_gen_returns [OF os run] os show ?thesis
    by (simp add: gn_failing_lines)
qed

subsection \<open>What a step may add to the trace\<close>

lemma emitsI:
  "(\<And>s. \<exists>es. trace (snd (m s)) = trace s @ es \<and> list_all P es) \<Longrightarrow> emits P m"
  by (simp add: emits_def)

lemma emitsD:
  "emits P m \<Longrightarrow> \<exists>es. trace (snd (m s)) = trace s @ es \<and> list_all P es"
  by (simp add: emits_def)

lemma emits_ret: "emits P (ret x)"
  by (simp add: emits_def ret_def)

lemma emits_throw: "emits P (throw e)"
  by (simp add: emits_def throw_def)

lemma emits_lift: "emits P (lift r)"
  by (simp add: emits_def lift_def)

lemma emits_seq:
  assumes "emits P m" and "\<And>x. emits P (f x)"
  shows "emits P (seq m f)"
proof (rule emitsI)
  fix s
  obtain r s1 where ms: "m s = (r, s1)"
    by (cases "m s")
  from emitsD [OF assms(1), of s] ms obtain es where
    es: "trace s1 = trace s @ es" "list_all P es"
    by auto
  show "\<exists>es. trace (snd (seq m f s)) = trace s @ es \<and> list_all P es"
  proof (cases r)
    case (Inl e)
    with ms es show ?thesis
      by (simp add: seq_def)
  next
    case (Inr x)
    from emitsD [OF assms(2), of x s1] obtain es' where
      "trace (snd (f x s1)) = trace s1 @ es'" "list_all P es'"
      by auto
    with ms es Inr show ?thesis
      by (simp add: seq_def)
  qed
qed

lemma emits_cond:
  assumes "emits P m" and "emits P n"
  shows "emits P (\<lambda>s. if b s then m s else n s)"
  using assms by (simp add: emits_def)

lemma emits_print: "P (Print (t @ nl)) \<Longrightarrow> emits P (print t)"
  by (simp add: emits_def print_def log_def)

lemma emits_check_call: "P (Exec args None None) \<Longrightarrow> emits P (check_call w args)"
  by (simp add: emits_def check_call_def log_def split: proc_outcome.split)

lemma emits_os_call: "P e \<Longrightarrow> emits P (os_call w e)"
  by (simp add: emits_def os_call_def log_def)

lemma emits_add_depot_tools_to_path: "emits P (add_depot_tools_to_path w src)"
  by (simp add: emits_def add_depot_tools_to_path_def setenv_def Let_def split: option.split)



lemma emits_search_pattern: "emits P (search_pattern w filename pattern)"
  by (simp add: emits_def search_pattern_def split: option.split)





lemma quiet_event_simps [simp]:
  "quiet_event (Exec a i c)" "quiet_event (Print t)" "quiet_event (Chdir d)"
  by (simp_all add: quiet_event_def)



lemma emits_if: "emits P m \<Longrightarrow> emits P n \<Longrightarrow> emits P (if b then m else n)"
  by simp

lemma emits_unit: "emits P (\<lambda>s. (Inr x, s))"
  by (simp add: emits_def)




subsection \<open>What a step leaves of the environment\<close>

lemma keeps_envD: "keeps_env m \<Longrightarrow> m s = (r, s') \<Longrightarrow> env s' = env s"
  by (auto simp: keeps_env_def dest: spec [of _ s])

lemma keeps_env_ret: "keeps_env (ret x)"
  by (simp add: keeps_env_def ret_def)

lemma keeps_env_throw: "keeps_env (throw e)"
  by (simp add: keeps_env_def throw_def)

lemma keeps_env_lift: "keeps_env (lift r)"
  by (simp add: keeps_env_def lift_def)

lemma keeps_env_seq:
  assumes "keeps_env m" and "\<And>x. keeps_env (f x)"
  shows "keeps_env (seq m f)"
  unfolding keeps_env_def
proof
  fix s
  obtain r s1 where ms: "m s = (r, s1)"
    by (cases "m s")
  from keeps_envD [OF assms(1) ms] have e: "env s1 = env s" .
  show "env (snd (seq m f s)) = env s"
  proof (cases r)
    case (Inl e)
    with ms \<open>env s1 = env s\<close> show ?thesis
      by (simp add: seq_def)
  next
    case (Inr x)
    from assms(2) [of x] have "env (snd (f x s1)) = env s1"
      by (simp add: keeps_env_def)
    with ms e Inr show ?thesis
      by (simp add: seq_def)
  qed
qed

lemma keeps_env_cond:
  "keeps_env m \<Longrightarrow> keeps_env n \<Longrightarrow> keeps_env (\<lambda>s. if b s then m s else n s)"
  by (simp add: keeps_env_def)

lemma keeps_env_if: "keeps_env m \<Longrightarrow> keeps_env n \<Longrightarrow> keeps_env (if b then m else n)"
  by simp

lemma keeps_env_unit: "keeps_env (\<lambda>s. (Inr x, s))"
  by (simp add: keeps_env_def)

lemma keeps_env_print: "keeps_env (print t)"
  by (simp add: keeps_env_def print_def log_def)

lemma keeps_env_check_call: "keeps_env (check_call w args)"
  by (simp add: keeps_env_def check_call_def log_def split: proc_outcome.split)

lemma keeps_env_cipd: "keeps_env (cipd w root package version)"
  unfolding cipd_def
  apply (rule keeps_env_seq [OF keeps_env_lift])
  apply (simp add: keeps_env_def Let_def seq_def print_def throw_def log_def
      split: proc_outcome.split)
  done

lemma keeps_env_read_var_from_deps: "keeps_env (read_var_from_deps w var deps_file)"
  by (simp add: keeps_env_def read_var_from_deps_def Let_def seq_def print_def throw_def log_def
      split: proc_outcome.split)

lemma keeps_env_search_pattern: "keeps_env (search_pattern w filename pattern)"
  by (simp add: keeps_env_def search_pattern_def split: option.split)

lemma keeps_env_download_from_google_storage:
  "keeps_env (download_from_google_storage w bucket sha_file sha1 extract output)"
  by (simp add: download_from_google_storage_def keeps_env_check_call)

lemma keeps_env_download_gcs_dep: "keeps_env (download_gcs_dep w name bucket)"
  unfolding download_gcs_dep_def
  by (intro keeps_env_seq keeps_env_read_var_from_deps keeps_env_lift
      keeps_env_download_from_google_storage)
    (auto split: option.split intro!: keeps_env_seq keeps_env_lift keeps_env_throw
      keeps_env_download_from_google_storage)

lemma keeps_env_download_nodejs: "keeps_env (download_nodejs w host_os)"
proof -
  have "keeps_env (\<lambda>s. if path_exists w s node_marker then
        seq (search_pattern w ''DEPS'' ''chromium-nodejs/([0-9.]*)'') (\<lambda>node_version.
        seq (download_from_google_storage w (''chromium-nodejs/'' @ node_version)
               (Some node_marker) None True None) (\<lambda>_.
        if host_os = ''mac'' then
          throw (NameError ''host_cpu'')
        else if host_os = ''win'' then
          download_from_google_storage w (''chromium-nodejs/'' @ node_version)
            (Some ''third_party/node/win/node.exe.sha1'') None False None
        else ret ())) s
      else
        seq (download_gcs_dep w ''third_party/node/linux'' ''chromium-nodejs'') (\<lambda>_.
        if host_os = ''mac'' then
          seq (download_gcs_dep w ''third_party/node/mac'' ''chromium-nodejs'') (\<lambda>_.
          download_gcs_dep w ''third_party/node/mac_arm64'' ''chromium-nodejs'')
        else if host_os = ''win'' then
          download_gcs_dep w ''third_party/node/win'' ''chromium-nodejs''
        else ret ()) s)"
    by (intro keeps_env_cond keeps_env_seq keeps_env_search_pattern
        keeps_env_download_from_google_storage keeps_env_download_gcs_dep)
      (auto intro!: keeps_env_throw keeps_env_ret keeps_env_download_from_google_storage
        keeps_env_seq keeps_env_download_gcs_dep)
  then show ?thesis
    by (simp add: download_nodejs_def [abs_def])
qed

lemma keeps_env_main_download_utils:
  "keeps_env (main_download_utils w a host_os host_cpu)"
  unfolding main_download_utils_def
  by (intro keeps_env_seq keeps_env_if keeps_env_cond keeps_env_unit keeps_env_ret
      keeps_env_download_nodejs keeps_env_read_var_from_deps keeps_env_cipd
      keeps_env_download_from_google_storage)

lemma keeps_env_main_linux_deps:
  "keeps_env (main_linux_deps w a host_os host_cpu)"
  unfolding main_linux_deps_def
  by (intro keeps_env_seq keeps_env_if keeps_env_ret keeps_env_check_call)

lemma keeps_env_main_download_compilers: "keeps_env (main_download_compilers w)"
  unfolding main_download_compilers_def
  by (intro keeps_env_seq keeps_env_check_call)

text \<open>Two states with the same environment differ in their traces only.\<close>

lemma state_of_trace:
  fixes s1 s2 :: state
  shows "env s1 = env s2 \<Longrightarrow> trace s1 = t \<Longrightarrow> s1 = s2\<lparr>trace := t\<rparr>"
  by (cases s1, cases s2) simp

subsection \<open>Source tarball\<close>




subsection \<open>Runs that succeed\<close>

lemma seq_InrE:
  assumes "seq m f s = (Inr y, s')"
  obtains x s1 where "m s = (Inr x, s1)" and "f x s1 = (Inr y, s')"
  using assms by (auto simp: seq_def split: prod.splits sum.splits)

lemma ret_InrD: "ret x s = (Inr y, s') \<Longrightarrow> y = x \<and> s' = s"
  by (simp add: ret_def)

lemma lift_InrD: "lift r s = (Inr x, s') \<Longrightarrow> r = Inr x \<and> s' = s"
  by (simp add: lift_def)

lemma check_call_InrD:
  "check_call w args s = (Inr u, s') \<Longrightarrow> trace s' = trace s @ [Exec args None None]"
  by (auto simp: check_call_def log_def split: proc_outcome.splits if_splits)

lemma os_call_InrD: "os_call w e s = (Inr u, s') \<Longrightarrow> trace s' = trace s @ [e]"
  by (auto simp: os_call_def log_def split: if_splits)

lemma add_depot_tools_to_path_trace:
  "add_depot_tools_to_path w src s = (r, s') \<Longrightarrow> trace s' = trace s"
  by (auto simp: add_depot_tools_to_path_def setenv_def Let_def split: option.splits)

lemma read_var_from_deps_InrD:
  "read_var_from_deps w var deps_file s = (Inr v, s') \<Longrightarrow>
   trace s' = trace s @ [Exec (getdep_args w var deps_file) None None]"
  by (auto simp: read_var_from_deps_def Let_def seq_def print_def throw_def log_def
      split: proc_outcome.splits if_splits)

lemma cipd_InrD:
  "cipd w root package version s = (Inr u, s') \<Longrightarrow> current_os w = Inr ''linux'' \<Longrightarrow>
   trace s' = trace s @ [Exec (cipd_args ''cipd'' root) (Some (package @ '' '' @ version)) None]"
  by (auto simp: cipd_def Let_def seq_def lift_def print_def throw_def log_def
      split: proc_outcome.splits if_splits)

lemma download_from_google_storage_InrD:
  "download_from_google_storage w bucket sha_file sha1 extract output s = (Inr u, s') \<Longrightarrow>
   trace s' = trace s @ [Exec (download_args w bucket sha_file sha1 extract output) None None]"
  by (simp add: download_from_google_storage_def check_call_InrD)

lemma download_gcs_dep_InrD:
  assumes "download_gcs_dep w name bucket s = (Inr u, s')"
  shows "\<exists>obj outf. trace s' = trace s @
           [Exec (getdep_args w (''src/'' @ name) ''DEPS'') None None,
            Exec (download_args w bucket None obj True (Some (path_join w name outf))) None None]"
  using assms unfolding download_gcs_dep_def
  by (auto elim!: seq_InrE dest!: read_var_from_deps_InrD download_from_google_storage_InrD
      lift_InrD simp: throw_def split: option.splits) blast

lemma download_nodejs_linux_InrD:
  assumes "download_nodejs w ''linux'' s = (Inr u, s')"
  shows "if path_exists w s node_marker then \<exists>v. trace s' = trace s @ plan_node_marker w v
         else \<exists>obj outf. trace s' = trace s @ plan_node_deps w obj outf"
proof (cases "path_exists w s node_marker")
  case True
  with assms obtain v s1 where
    "search_pattern w ''DEPS'' ''chromium-nodejs/([0-9.]*)'' s = (Inr v, s1)"
    "download_from_google_storage w (''chromium-nodejs/'' @ v) (Some node_marker) None True None s1
       = (Inr u, s')"
    by (auto simp: download_nodejs_def elim!: seq_InrE dest!: ret_InrD)
  moreover from this(1) have "s1 = s"
    by (auto simp: search_pattern_def split: option.splits)
  ultimately show ?thesis
    using True by (auto simp: plan_node_marker_def dest!: download_from_google_storage_InrD)
next
  case False
  with assms obtain s1 where
    "download_gcs_dep w ''third_party/node/linux'' ''chromium-nodejs'' s = (Inr (), s1)"
    "s' = s1"
    by (auto simp: download_nodejs_def elim!: seq_InrE dest!: ret_InrD)
  then show ?thesis
    using False
      download_gcs_dep_InrD [of w "''third_party/node/linux''" "''chromium-nodejs''" s "()" s1]
    by (simp add: plan_node_deps_def)
qed

lemma print_InrD: "print t s = (Inr u, s') \<Longrightarrow> trace s' = trace s @ [Print (t @ nl)]"
  by (auto simp: print_def log_def)

lemma print_no_end_InrD: "print_no_end t s = (Inr u, s') \<Longrightarrow> trace s' = trace s @ [Print t]"
  by (auto simp: print_no_end_def log_def)

lemma download_and_extract_InrD:
  "download_and_extract w url p s = (Inr u, s') \<Longrightarrow>
   \<exists>n. trace s' = trace s @ Urlopen url # replicate n (Print ''.'') @ [Extracted p]"
  by (auto simp: download_and_extract_def Let_def log_def split: fetch_outcome.splits if_splits)

lemma main_download_source_NoneD:
  assumes "main_download_source w a s = (Inr None, s')"
  shows "if path_isdir w s (src_dir a) then trace s' = trace s
         else \<exists>n. trace s' = trace s @ plan_source w a n"
proof (cases "path_isdir w s (src_dir a)")
  case True
  with assms show ?thesis
    by (simp add: main_download_source_def)
next
  case False
  with assms have "\<not> path_isdir w s (main_tarball_dir w a)"
    by (auto simp: main_download_source_def Let_def elim!: seq_InrE dest!: ret_InrD)
  with assms False obtain s1 s2 s3 where
    "print_no_end (''Download and extract '' @ main_tarball_dir w a) s = (Inr (), s1)"
    "download_and_extract w (main_tarball_url a) ''.'' s1 = (Inr (), s2)"
    "print ''Done'' s2 = (Inr (), s3)"
    "os_call w (Rename (main_tarball_dir w a) (src_dir a)) s3 = (Inr (), s')"
    by (auto simp: main_download_source_def Let_def elim!: seq_InrE dest!: ret_InrD)
  then show ?thesis
    using False
    by (auto simp: plan_source_def dest!: print_no_end_InrD download_and_extract_InrD
        print_InrD os_call_InrD)
qed

lemma main_bootstrap_depot_tools_linux_InrD:
  assumes "main_bootstrap_depot_tools w a ''linux'' s = (Inr u, s')"
  shows "trace s' = trace s @ [Chdir (src_dir a)]"
  using assms unfolding main_bootstrap_depot_tools_def
  by (auto elim!: seq_InrE dest!: ret_InrD os_call_InrD add_depot_tools_to_path_trace)

lemma main_download_compilers_InrD:
  assumes "main_download_compilers w s = (Inr u, s')"
  shows "trace s' = trace s @
           [Exec [sys_executable w, ''tools/clang/scripts/update.py''] None None,
            Exec [sys_executable w, ''tools/rust/update_rust.py''] None None]"
  using assms unfolding main_download_compilers_def
  by (auto elim!: seq_InrE dest!: check_call_InrD)

lemma esbuild_step_InrD:
  assumes "(if path_isdir w s esbuild_dir then
              seq (read_var_from_deps w
                     ''third_party/esbuild:infra/3pp/tools/esbuild/${platform}''
                     ''third_party/devtools-frontend/src/DEPS'') (\<lambda>v.
              cipd w esbuild_dir ''infra/3pp/tools/esbuild/${platform}'' v) s
            else (Inr (), s)) = (Inr u, s')"
    and "current_os w = Inr ''linux''"
  shows "if path_isdir w s esbuild_dir then \<exists>v. trace s' = trace s @ plan_esbuild w v
         else trace s' = trace s"
  using assms
  by (auto simp: plan_esbuild_def elim!: seq_InrE dest!: read_var_from_deps_InrD cipd_InrD
      split: if_splits)

lemma main_linux_deps_InrD:
  assumes "main_linux_deps w a ''linux'' host_cpu s = (Inr u, s')"
  shows "trace s' = trace s @ plan_sysroots w host_cpu (target_cpu a)"
  using assms unfolding main_linux_deps_def
  by (auto simp: plan_sysroots_def elim!: seq_InrE dest!: check_call_InrD ret_InrD
      split: if_splits)

lemma main_download_utils_linux_InrD:
  assumes run: "main_download_utils w a ''linux'' host_cpu s = (Inr u, s')"
    and os: "current_os w = Inr ''linux''"
  shows "\<exists>node esbuild ninja reclient gn.
           trace s' = trace s @ node @ esbuild @ plan_linux_tools w ninja reclient gn @
             (if target_os a = ''win'' then [plan_rc_linux64 w] else []) \<and>
           (if path_exists w s node_marker then \<exists>v. node = plan_node_marker w v
            else \<exists>obj outf. node = plan_node_deps w obj outf) \<and>
           (if path_isdir w (s\<lparr>trace := trace s @ node\<rparr>) esbuild_dir
            then \<exists>v. esbuild = plan_esbuild w v else esbuild = [])"
proof -
  from run obtain s1 s2 s3 s4 s5 s6 s7 s8 ninja reclient gn where
    node: "download_nodejs w ''linux'' s = (Inr (), s1)" and
    esb: "(if path_isdir w s1 esbuild_dir then
              seq (read_var_from_deps w
                     ''third_party/esbuild:infra/3pp/tools/esbuild/${platform}''
                     ''third_party/devtools-frontend/src/DEPS'') (\<lambda>v.
              cipd w esbuild_dir ''infra/3pp/tools/esbuild/${platform}'' v) s1
            else (Inr (), s1)) = (Inr (), s2)" and
    r1: "read_var_from_deps w ''src/third_party/ninja:infra/3pp/tools/ninja/${platform}''
           ''DEPS'' s2 = (Inr ninja, s3)" and
    c1: "cipd w ''third_party/ninja'' ''infra/3pp/tools/ninja/${platform}'' ninja s3 = (Inr (), s4)" and
    r2: "read_var_from_deps w ''src/buildtools/reclient:infra/rbe/client/${platform}''
           ''DEPS'' s4 = (Inr reclient, s5)" and
    c2: "cipd w ''buildtools/reclient'' ''infra/rbe/client/${platform}'' reclient s5 = (Inr (), s6)" and
    r3: "read_var_from_deps w ''src/buildtools/mac:gn/gn/mac-${arch}'' ''DEPS'' s6 = (Inr gn, s7)" and
    c3: "cipd w ''buildtools/linux64'' ''gn/gn/linux-${arch}'' gn s7 = (Inr (), s8)" and
    rc: "(if target_os a = ''win'' then
            download_from_google_storage w ''chromium-browser-clang/rc''
              (Some ''build/toolchain/win/rc/linux64/rc.sha1'') None False None
          else ret ()) s8 = (Inr u, s')"
    unfolding main_download_utils_def
    by simp (elim seq_InrE, simp)
  from download_nodejs_linux_InrD [OF node] obtain node where
    n: "trace s1 = trace s @ node"
      "if path_exists w s node_marker then \<exists>v. node = plan_node_marker w v
       else \<exists>obj outf. node = plan_node_deps w obj outf"
    by (auto split: if_splits)
  from keeps_envD [OF keeps_env_download_nodejs node] n(1)
  have s1: "s1 = s\<lparr>trace := trace s @ node\<rparr>"
    by (rule state_of_trace)
  from esbuild_step_InrD [OF esb os] obtain esbuild where
    e: "trace s2 = trace s1 @ esbuild"
      "if path_isdir w s1 esbuild_dir then \<exists>v. esbuild = plan_esbuild w v else esbuild = []"
    by (auto split: if_splits)
  from r1 c1 r2 c2 r3 c3 os have t: "trace s8 = trace s2 @ plan_linux_tools w ninja reclient gn"
    by (auto simp: plan_linux_tools_def dest!: read_var_from_deps_InrD cipd_InrD)
  from rc have "trace s' = trace s8 @ (if target_os a = ''win'' then [plan_rc_linux64 w] else [])"
    by (auto simp: plan_rc_linux64_def dest!: download_from_google_storage_InrD ret_InrD
        split: if_splits)
  with n(1) e(1) t have
    "trace s' = trace s @ node @ esbuild @ plan_linux_tools w ninja reclient gn @
       (if target_os a = ''win'' then [plan_rc_linux64 w] else [])"
    by simp
  with n(2) e(2) [unfolded s1] show ?thesis
    by blast
qed


lemma seq_lift_Inr: "seq (lift (Inr x)) f = f x"
  by (rule ext) (simp add: seq_def lift_def)

lemma main_provision_linux_InrD:
  assumes run: "main_provision w a s = (Inr r, s')"
    and os: "current_os w = Inr ''linux''" and cpu: "current_cpu w = Inr host_cpu"
  shows "\<exists>node esbuild ninja reclient gn.
           trace s' = trace s @ plan_compilers w a @ node @ esbuild @
             plan_linux_tools w ninja reclient gn @
             (if target_os a = ''win'' then [plan_rc_linux64 w] else []) @
             plan_sysroots w host_cpu (target_cpu a) \<and>
           (if path_exists w (s'\<lparr>trace := trace s @ plan_compilers w a\<rparr>) node_marker
            then \<exists>v. node = plan_node_marker w v
            else \<exists>obj outf. node = plan_node_deps w obj outf) \<and>
           (if path_isdir w (s'\<lparr>trace := trace s @ plan_compilers w a @ node\<rparr>) esbuild_dir
            then \<exists>v. esbuild = plan_esbuild w v else esbuild = [])"
proof -
  from run os cpu obtain s1 s2 s3 where
    b: "main_bootstrap_depot_tools w a ''linux'' s = (Inr (), s1)" and
    c: "main_download_compilers w s1 = (Inr (), s2)" and
    u: "main_download_utils w a ''linux'' host_cpu s2 = (Inr (), s3)" and
    l: "main_linux_deps w a ''linux'' host_cpu s3 = (Inr (), s')"
    unfolding main_provision_def
    by (simp add: seq_lift_Inr) (elim seq_InrE, auto dest!: ret_InrD)
  from main_bootstrap_depot_tools_linux_InrD [OF b] main_download_compilers_InrD [OF c]
  have t2: "trace s2 = trace s @ plan_compilers w a"
    by (simp add: plan_compilers_def)
  from keeps_envD [OF keeps_env_main_download_utils u]
    keeps_envD [OF keeps_env_main_linux_deps l]
  have "env s2 = env s'"
    by simp
  from this t2 have s2: "s2 = s'\<lparr>trace := trace s @ plan_compilers w a\<rparr>"
    by (rule state_of_trace)
  from main_download_utils_linux_InrD [OF u os] obtain node esbuild ninja reclient gn where
    tr: "trace s3 = trace s2 @ node @ esbuild @ plan_linux_tools w ninja reclient gn @
           (if target_os a = ''win'' then [plan_rc_linux64 w] else [])" and
    n: "if path_exists w s2 node_marker then \<exists>v. node = plan_node_marker w v
        else \<exists>obj outf. node = plan_node_deps w obj outf" and
    e: "if path_isdir w (s2\<lparr>trace := trace s2 @ node\<rparr>) esbuild_dir
        then \<exists>v. esbuild = plan_esbuild w v else esbuild = []"
    by blast
  from tr t2 main_linux_deps_InrD [OF l] have
    "trace s' = trace s @ plan_compilers w a @ node @ esbuild @
       plan_linux_tools w ninja reclient gn @
       (if target_os a = ''win'' then [plan_rc_linux64 w] else []) @
       plan_sysroots w host_cpu (target_cpu a)"
    by simp
  moreover from n have
    "if path_exists w (s'\<lparr>trace := trace s @ plan_compilers w a\<rparr>) node_marker
     then \<exists>v. node = plan_node_marker w v
     else \<exists>obj outf. node = plan_node_deps w obj outf"
    by (simp only: s2)
  moreover from e have
    "if path_isdir w (s'\<lparr>trace := trace s @ plan_compilers w a @ node\<rparr>) esbuild_dir
     then \<exists>v. esbuild = plan_esbuild w v else esbuild = []"
    by (simp add: s2)
  ultimately show ?thesis
    by blast
qed

lemma main_NoneD:
  assumes "main w c s = (Inr None, s')" and "parse_args w c = Inr a"
  obtains s1 where "main_download_source w a s = (Inr None, s1)"
    and "main_provision w a s1 = (Inr None, s')"
  using assms
  by (auto simp: main_def lift_def seq_def ret_def print_def
      split: if_splits prod.splits sum.splits option.splits)

subsection \<open>The steps on a linux host\<close>

lemma is_install_sysroot_simps [simp]:
  "is_install_sysroot w (Exec (install_sysroot w arch) None None)"
  "\<not> is_install_sysroot w (Exec (getdep_args w var f) i c)"
  "\<not> is_install_sysroot w (Exec (cipd_args b root) i c)"
  "\<not> is_install_sysroot w (Exec (download_args w bucket sf sh ex outp) i c)"
  "\<not> is_install_sysroot w (Exec [x, y] i c)"
  "\<not> is_install_sysroot w (Print t)"
  "\<not> is_install_sysroot w (Urlopen t)"
  "\<not> is_install_sysroot w (Extracted t)"
  "\<not> is_install_sysroot w (Rename t t')"
  "\<not> is_install_sysroot w (Chdir t)"
  by (simp_all add: is_install_sysroot_def install_sysroot_def getdep_args_def cipd_args_def
      download_args_def split: option.split)

lemma filter_plan [simp]:
  "filter (is_install_sysroot w) (plan_source w a n) = []"
  "filter (is_install_sysroot w) (plan_compilers w a) = []"
  "filter (is_install_sysroot w) (plan_node_marker w v) = []"
  "filter (is_install_sysroot w) (plan_node_deps w obj outf) = []"
  "filter (is_install_sysroot w) (plan_esbuild w v) = []"
  "filter (is_install_sysroot w) (plan_linux_tools w ninja reclient gn) = []"
  "\<not> is_install_sysroot w (plan_rc_linux64 w)"
  "filter (is_install_sysroot w) (plan_sysroots w h t) = plan_sysroots w h t"
  by (simp_all add: plan_source_def plan_compilers_def plan_node_marker_def plan_node_deps_def
      plan_esbuild_def plan_linux_tools_def plan_rc_linux64_def plan_sysroots_def)

subsection \<open>No step of another host\<close>

lemma opt_args_cases:
  "opt_args flags x = [] \<or> (\<exists>y. opt_args flags x = flags @ [y])"
  by (cases "(flags, x)" rule: opt_args.cases) auto

lemma native_event_node_deps [simp]:
  "native_event w (Exec (download_args w ''chromium-nodejs'' None obj True (Some p)) i c)"
  using opt_args_cases [of "[]" obj] opt_args_cases [of "[''-o'']" "Some p"]
  by (auto simp: native_event_def foreign_host_step_def download_args_def getdep_args_def
      cipd_args_def)

lemma native_event_simps [simp]:
  "native_event w (Print t)"
  "native_event w (Urlopen t)"
  "native_event w (Extracted t)"
  "native_event w (Rename t t')"
  "native_event w (Chdir t)"
  "native_event w (Exec [x, y] i c)"
  "native_event w (Exec (install_sysroot w arch) i c)"
  "native_event w (Exec (getdep_args w ''src/third_party/node/linux'' ''DEPS'') i c)"
  "native_event w (Exec (getdep_args w ''third_party/esbuild:infra/3pp/tools/esbuild/${platform}''
                      ''third_party/devtools-frontend/src/DEPS'') i c)"
  "native_event w (Exec (getdep_args w ''src/third_party/ninja:infra/3pp/tools/ninja/${platform}''
                      ''DEPS'') i c)"
  "native_event w (Exec (getdep_args w ''src/buildtools/reclient:infra/rbe/client/${platform}''
                      ''DEPS'') i c)"
  "native_event w (Exec (getdep_args w ''src/buildtools/mac:gn/gn/mac-${arch}'' ''DEPS'') i c)"
  "native_event w (Exec (cipd_args ''cipd'' esbuild_dir) i c)"
  "native_event w (Exec (cipd_args ''cipd'' ''third_party/ninja'') i c)"
  "native_event w (Exec (cipd_args ''cipd'' ''buildtools/reclient'') i c)"
  "native_event w (Exec (cipd_args ''cipd'' ''buildtools/linux64'') i c)"
  "native_event w (Exec (download_args w bucket (Some node_marker) None True None) i c)"
  "native_event w (plan_rc_linux64 w)"
  by (simp_all add: native_event_def foreign_host_step_def install_sysroot_def getdep_args_def
      cipd_args_def download_args_def esbuild_dir_def node_marker_def plan_rc_linux64_def
      split: option.split list.split)


lemma emits_print_no_end: "P (Print t) \<Longrightarrow> emits P (print_no_end t)"
  by (simp add: emits_def print_no_end_def log_def)

lemma emits_download_and_extract:
  assumes "P (Urlopen url)" and "P (Print ''.'')" and "P (Extracted p)"
  shows "emits P (download_and_extract w url p)"
  by (rule emitsI)
    (simp add: download_and_extract_def Let_def log_def assms list_all_iff
      split: fetch_outcome.split)

lemma emits_cipd_linux:
  assumes "current_os w = Inr ''linux''"
    and "P (Exec (cipd_args ''cipd'' root) (Some (package @ '' '' @ version)) None)"
    and "\<And>t. P (Print t)"
  shows "emits P (cipd w root package version)"
  using assms
  by (auto simp: emits_def cipd_def seq_def lift_def Let_def print_def throw_def log_def
      split: proc_outcome.split)

lemma emits_read_var_exact:
  assumes "P (Exec (getdep_args w var deps_file) None None)" and "\<And>t. P (Print t)"
  shows "emits P (read_var_from_deps w var deps_file)"
  by (rule emitsI)
    (simp add: read_var_from_deps_def Let_def seq_def print_def throw_def log_def assms
      split: proc_outcome.split)

lemma emits_download_exact:
  assumes "P (Exec (download_args w bucket sha_file sha1 extract output) None None)"
  shows "emits P (download_from_google_storage w bucket sha_file sha1 extract output)"
  by (simp add: download_from_google_storage_def emits_check_call assms)

lemma emits_download_gcs_dep_exact:
  assumes "P (Exec (getdep_args w (''src/'' @ name) ''DEPS'') None None)"
    and "\<And>obj outf. P (Exec (download_args w bucket None obj True
                                 (Some (path_join w name outf))) None None)"
    and "\<And>t. P (Print t)"
  shows "emits P (download_gcs_dep w name bucket)"
  unfolding download_gcs_dep_def
  by (intro emits_seq emits_read_var_exact emits_lift assms)
    (auto split: option.split intro!: emits_seq emits_lift emits_throw emits_download_exact assms)

lemma linux_is_linux: "''linux'' \<noteq> ''mac''" "''linux'' \<noteq> ''win''"
  by simp_all

lemma native_download_nodejs: "emits (native_event w) (download_nodejs w ''linux'')"
  unfolding download_nodejs_def [abs_def]
  apply (simp only: linux_is_linux if_False)
  apply (intro emits_cond emits_seq emits_search_pattern emits_download_exact
      emits_download_gcs_dep_exact emits_ret)
  apply simp_all
  done

lemma native_main_download_source: "emits (native_event w) (main_download_source w a)"
  unfolding main_download_source_def [abs_def] Let_def
  apply (intro emits_cond emits_seq emits_print emits_print_no_end emits_download_and_extract
      emits_os_call emits_ret emits_unit)
  apply simp_all
  done

lemma native_main_provision:
  assumes os: "current_os w = Inr ''linux''"
  shows "emits (native_event w) (main_provision w a)"
  unfolding main_provision_def main_bootstrap_depot_tools_def main_download_compilers_def
    main_download_utils_def main_linux_deps_def
  apply (simp only: os seq_lift_Inr linux_is_linux if_False if_True simp_thms)
  apply (intro emits_seq emits_if emits_cond emits_unit emits_ret emits_lift
      emits_add_depot_tools_to_path emits_os_call emits_check_call native_download_nodejs
      emits_read_var_exact emits_cipd_linux [OF os] emits_download_exact)
  apply (simp_all add: plan_rc_linux64_def [symmetric])
  done

lemma native_main:
  assumes os: "current_os w = Inr ''linux''"
  shows "emits (native_event w) (main w c)"
  unfolding main_def
  by (intro emits_seq emits_lift emits_if emits_print emits_ret native_main_download_source)
    (auto split: option.split intro!: emits_ret native_main_provision os)

text \<open>
  Claim C2, as amended. No run on a linux host, completed or not, starts a command of
  the branches for a Windows or a Mac host. A run on a linux host that completes has
  done exactly this, in this order: the source tarball stage exactly when the source
  directory does not exist at the start; a change of directory and the update of the
  two compilers; the fetch of linux node, through the marker file when that file
  exists once the compilers are updated and through the DEPS entry otherwise; the
  esbuild installation exactly when the esbuild directory exists once node is
  fetched; the installation of ninja, reclient and the linux gn; the fetch of the
  linux64 build of the Windows resource compiler exactly when the target OS is win;
  the sysroot of the host CPU and, exactly when the target CPU differs, the sysroot
  of the target CPU. So its sysroot installations are the one for the host CPU and,
  if different, the one for the target CPU. The state in which a file or directory
  is looked up is the final state with the trace cut back to that point: no step
  after the change of directory touches the environment.
\<close>

theorem main_linux_plan:
  assumes os: "current_os w = Inr ''linux''" and cpu: "current_cpu w = Inr host_cpu"
    and parse: "parse_args w c = Inr a"
  shows "(\<exists>es. trace (snd (main w c s)) = trace s @ es \<and> list_all (native_event w) es) \<and>
         (\<forall>s'. main w c s = (Inr None, s') \<longrightarrow>
            (\<exists>source node esbuild ninja reclient gn.
               trace s' = trace s @ source @ plan_compilers w a @ node @ esbuild @
                 plan_linux_tools w ninja reclient gn @
                 (if target_os a = ''win'' then [plan_rc_linux64 w] else []) @
                 plan_sysroots w host_cpu (target_cpu a) \<and>
               (if path_isdir w s (src_dir a) then source = []
                else \<exists>n. source = plan_source w a n) \<and>
               (if path_exists w (s'\<lparr>trace := trace s @ source @ plan_compilers w a\<rparr>)
                     node_marker
                then \<exists>v. node = plan_node_marker w v
                else \<exists>obj outf. node = plan_node_deps w obj outf) \<and>
               (if path_isdir w (s'\<lparr>trace := trace s @ source @ plan_compilers w a @ node\<rparr>)
                     esbuild_dir
                then \<exists>v. esbuild = plan_esbuild w v else esbuild = []) \<and>
               filter (is_install_sysroot w) (drop (length (trace s)) (trace s')) =
                 plan_sysroots w host_cpu (target_cpu a)))"
proof (intro conjI allI impI)
  show "\<exists>es. trace (snd (main w c s)) = trace s @ es \<and> list_all (native_event w) es"
    by (rule emitsD [OF native_main [OF os]])
next
  fix s'
  assume run: "main w c s = (Inr None, s')"
  from main_NoneD [OF run parse] obtain s1 where
    src: "main_download_source w a s = (Inr None, s1)" and
    prov: "main_provision w a s1 = (Inr None, s')"
    by blast
  from main_download_source_NoneD [OF src] obtain source where
    s: "trace s1 = trace s @ source"
      "if path_isdir w s (src_dir a) then source = [] else \<exists>n. source = plan_source w a n"
    by (auto split: if_splits)
  from main_provision_linux_InrD [OF prov os cpu] obtain node esbuild ninja reclient gn where
    p: "trace s' = trace s1 @ plan_compilers w a @ node @ esbuild @
          plan_linux_tools w ninja reclient gn @
          (if target_os a = ''win'' then [plan_rc_linux64 w] else []) @
          plan_sysroots w host_cpu (target_cpu a)" and
    n: "if path_exists w (s'\<lparr>trace := trace s1 @ plan_compilers w a\<rparr>) node_marker
        then \<exists>v. node = plan_node_marker w v
        else \<exists>obj outf. node = plan_node_deps w obj outf" and
    e: "if path_isdir w (s'\<lparr>trace := trace s1 @ plan_compilers w a @ node\<rparr>) esbuild_dir
        then \<exists>v. esbuild = plan_esbuild w v else esbuild = []"
    by blast
  from s(1) p have tr:
    "trace s' = trace s @ source @ plan_compilers w a @ node @ esbuild @
       plan_linux_tools w ninja reclient gn @
       (if target_os a = ''win'' then [plan_rc_linux64 w] else []) @
       plan_sysroots w host_cpu (target_cpu a)"
    by simp
  from s(2) have source: "source = [] \<or> (\<exists>n. source = plan_source w a n)"
    by (auto split: if_splits)
  from n have node: "(\<exists>v. node = plan_node_marker w v) \<or>
      (\<exists>obj outf. node = plan_node_deps w obj outf)"
    by (auto split: if_splits)
  from e have esbuild: "esbuild = [] \<or> (\<exists>v. esbuild = plan_esbuild w v)"
    by (auto split: if_splits)
  from source node esbuild have
    "filter (is_install_sysroot w) (source @ plan_compilers w a @ node @ esbuild @
       plan_linux_tools w ninja reclient gn @
       (if target_os a = ''win'' then [plan_rc_linux64 w] else []) @
       plan_sysroots w host_cpu (target_cpu a)) = plan_sysroots w host_cpu (target_cpu a)"
    by auto
  with tr have f: "filter (is_install_sysroot w) (drop (length (trace s)) (trace s')) =
      plan_sysroots w host_cpu (target_cpu a)"
    by simp
  from n have n': "if path_exists w (s'\<lparr>trace := trace s @ source @ plan_compilers w a\<rparr>)
        node_marker
      then \<exists>v. node = plan_node_marker w v
      else \<exists>obj outf. node = plan_node_deps w obj outf"
    by (simp only: s(1) append_assoc)
  from e have e': "if path_isdir w
        (s'\<lparr>trace := trace s @ source @ plan_compilers w a @ node\<rparr>) esbuild_dir
      then \<exists>v. esbuild = plan_esbuild w v else esbuild = []"
    by (simp only: s(1) append_assoc)
  from tr s(2) n' e' f show "\<exists>source node esbuild ninja reclient gn.
      trace s' = trace s @ source @ plan_compilers w a @ node @ esbuild @
        plan_linux_tools w ninja reclient gn @
        (if target_os a = ''win'' then [plan_rc_linux64 w] else []) @
        plan_sysroots w host_cpu (target_cpu a) \<and>
      (if path_isdir w s (src_dir a) then source = []
       else \<exists>n. source = plan_source w a n) \<and>
      (if path_exists w (s'\<lparr>trace := trace s @ source @ plan_compilers w a\<rparr>)
            node_marker
       then \<exists>v. node = plan_node_marker w v
       else \<exists>obj outf. node = plan_node_deps w obj outf) \<and>
      (if path_isdir w (s'\<lparr>trace := trace s @ source @ plan_compilers w a @ node\<rparr>)
            esbuild_dir
       then \<exists>v. esbuild = plan_esbuild w v else esbuild = []) \<and>
      filter (is_install_sysroot w) (drop (length (trace s)) (trace s')) =
        plan_sysroots w host_cpu (target_cpu a)"
    by blast
qed

subsection \<open>Closed examples of whole runs\<close>

lemmas run_defs =
  main_def parse_args_def current_cpu_def current_os_def main_download_source_def
  main_provision_def main_bootstrap_depot_tools_def main_download_compilers_def
  main_download_utils_def main_linux_deps_def download_nodejs_def download_gcs_dep_def
  download_from_google_storage_def download_args_def read_var_from_deps_def getdep_args_def
  cipd_def cipd_args_def check_call_def install_sysroot_def add_depot_tools_to_path_def
  os_call_def search_pattern_def esbuild_dir_def node_marker_def
  seq_def lift_def ret_def throw_def print_def print_no_end_def log_def setenv_def Let_def
  quiet_world_def linux_world_def win_world_def mac_world_def
  cli_arm_def cli_none_def cli_win_def start_def nl_def
  str_lower_literals posix_join_def

lemma linux_world_platform:
  "current_os linux_world = Inr ''linux''" "current_cpu linux_world = Inr ''x64''"
  by (simp_all add: linux_world_def current_os_def current_cpu_def quiet_world_simps
      str_lower_literals)

lemma linux_world_fields:
  "sys_executable linux_world = ''python3''"
  "path_isdir linux_world s p = (p = ''/bc/src'')"
  "ROOT_DIR linux_world = ''/bc''"
  "path_join linux_world = posix_join"
  by (simp_all add: linux_world_def quiet_world_simps)

lemma parse_cli_arm:
  "parse_args linux_world cli_arm =
     Inr \<lparr>revision = Some ''120.0.1'', tarball_url = None, src_dir = ''/bc/src'',
          target_cpu = ''arm'', target_os = ''linux''\<rparr>"
  by (simp add: run_defs)

lemma run_cli_arm: "fst (main linux_world cli_arm start) = Inr None"
  by (simp add: run_defs)

theorem main_linux_plan_witness:
  "current_os linux_world = Inr ''linux'' \<and> current_cpu linux_world = Inr ''x64'' \<and>
   fst (main linux_world cli_arm start) = Inr None \<and>
   filter (is_install_sysroot linux_world) (trace (snd (main linux_world cli_arm start))) =
     [Exec [''python3'', ''build/linux/sysroot_scripts/install-sysroot.py'', ''--arch'', ''x64'']
        None None,
      Exec [''python3'', ''build/linux/sysroot_scripts/install-sysroot.py'', ''--arch'', ''arm'']
        None None]"
proof -
  have run: "main linux_world cli_arm start = (Inr None, snd (main linux_world cli_arm start))"
    using run_cli_arm by (simp add: prod_eq_iff)
  have "trace start = []"
    by (simp add: start_def)
  with main_linux_plan [OF linux_world_platform parse_cli_arm, of start] run
  have "filter (is_install_sysroot linux_world) (trace (snd (main linux_world cli_arm start))) =
          plan_sysroots linux_world ''x64'' ''arm''"
    by auto
  then show ?thesis
    by (simp add: linux_world_platform run_cli_arm plan_sysroots_def install_sysroot_def
        linux_world_fields)
qed

text \<open>
  On a Windows host and on a Mac host the steps of that host are taken, and
  \<open>foreign_host_step\<close> picks out the first command of each.
\<close>

lemma foreign_steps_win_host:
  "fst (main win_world cli_arm start) = Inr None \<and>
   filter (foreign_host_step win_world) (trace (snd (main win_world cli_arm start))) =
     [Exec [''/bc/vendor/depot_tools/bootstrap/win_tools.bat''] None None,
      Exec [''python3'', ''build/vs_toolchain.py'', ''update'', ''--force''] None None,
      Exec [''python3'', ''third_party/depot_tools/gclient.py'', ''getdep'', ''--deps-file'',
            ''DEPS'', ''-r'', ''src/third_party/node/win''] None None,
      Exec [''cipd.bat'', ''ensure'', ''-root'', ''buildtools/win'', ''-ensure-file'', ''-'']
        (Some ''gn/gn/windows-amd64 1.2.3'') None,
      Exec [''python3'', ''third_party/depot_tools/download_from_google_storage.py'',
            ''--no_resume'', ''--no_auth'', ''--bucket'', ''chromium-browser-clang/rc'',
            ''-s'', ''build/toolchain/win/rc/win/rc.exe.sha1''] None None]"
  by (simp add: run_defs foreign_host_step_def)

lemma foreign_steps_mac_host:
  "fst (main mac_world cli_win start) = Inr None \<and>
   filter (foreign_host_step mac_world) (trace (snd (main mac_world cli_win start))) =
     [Exec [''python3'', ''third_party/depot_tools/gclient.py'', ''getdep'', ''--deps-file'',
            ''DEPS'', ''-r'', ''src/third_party/node/mac''] None None,
      Exec [''python3'', ''third_party/depot_tools/gclient.py'', ''getdep'', ''--deps-file'',
            ''DEPS'', ''-r'', ''src/third_party/node/mac_arm64''] None None,
      Exec [''cipd'', ''ensure'', ''-root'', ''buildtools/mac'', ''-ensure-file'', ''-'']
        (Some ''gn/gn/mac-${arch} 1.2.3'') None,
      Exec [''python3'', ''third_party/depot_tools/download_from_google_storage.py'',
            ''--no_resume'', ''--no_auth'', ''--bucket'', ''chromium-browser-clang'',
            ''-s'', ''tools/clang/dsymutil/bin/dsymutil.arm64.sha1'',
            ''-o'', ''tools/clang/dsymutil/bin/dsymutil''] None None,
      Exec [''python3'', ''third_party/depot_tools/download_from_google_storage.py'',
            ''--no_resume'', ''--no_auth'', ''--bucket'', ''chromium-browser-clang/rc'',
            ''-s'', ''build/toolchain/win/rc/mac/rc.sha1''] None None]"
  by (simp add: run_defs foreign_host_step_def)

text \<open>
  Claim C2 as stated fails: on a linux host with target OS win, a run that completes
  has fetched the Windows resource compiler (the last but one step below), a step
  taken for a Windows target only.
\<close>

theorem main_linux_target_win_counterexample:
  "current_os linux_world = Inr ''linux'' \<and>
   fst (main linux_world cli_win start) = Inr None \<and>
   trace (snd (main linux_world cli_win start)) =
     [Chdir ''/bc/src'',
      Exec [''python3'', ''tools/clang/scripts/update.py''] None None,
      Exec [''python3'', ''tools/rust/update_rust.py''] None None,
      Exec [''python3'', ''third_party/depot_tools/gclient.py'', ''getdep'', ''--deps-file'',
            ''DEPS'', ''-r'', ''src/third_party/node/linux''] None None,
      Exec [''python3'', ''third_party/depot_tools/download_from_google_storage.py'',
            ''--no_resume'', ''--no_auth'', ''--bucket'', ''chromium-nodejs'', ''abc'',
            ''--extract'', ''-o'', ''third_party/node/linux/x.tar.gz''] None None,
      Exec [''python3'', ''third_party/depot_tools/gclient.py'', ''getdep'', ''--deps-file'',
            ''DEPS'', ''-r'', ''src/third_party/ninja:infra/3pp/tools/ninja/${platform}'']
        None None,
      Exec [''cipd'', ''ensure'', ''-root'', ''third_party/ninja'', ''-ensure-file'', ''-'']
        (Some ''infra/3pp/tools/ninja/${platform} 1.2.3'') None,
      Exec [''python3'', ''third_party/depot_tools/gclient.py'', ''getdep'', ''--deps-file'',
            ''DEPS'', ''-r'', ''src/buildtools/reclient:infra/rbe/client/${platform}'']
        None None,
      Exec [''cipd'', ''ensure'', ''-root'', ''buildtools/reclient'', ''-ensure-file'', ''-'']
        (Some ''infra/rbe/client/${platform} 1.2.3'') None,
      Exec [''python3'', ''third_party/depot_tools/gclient.py'', ''getdep'', ''--deps-file'',
            ''DEPS'', ''-r'', ''src/buildtools/mac:gn/gn/mac-${arch}''] None None,
      Exec [''cipd'', ''ensure'', ''-root'', ''buildtools/linux64'', ''-ensure-file'', ''-'']
        (Some ''gn/gn/linux-${arch} 1.2.3'') None,
      Exec [''python3'', ''third_party/depot_tools/download_from_google_storage.py'',
            ''--no_resume'', ''--no_auth'', ''--bucket'', ''chromium-browser-clang/rc'',
            ''-s'', ''build/toolchain/win/rc/linux64/rc.sha1''] None None,
      Exec [''python3'', ''build/linux/sysroot_scripts/install-sysroot.py'', ''--arch'', ''x64'']
        None None]"
  by (simp add: run_defs)



end
